theory Spec2Isabelle
  imports Complex_Main "HOL-Library.Multiset"
begin

section \<open>JavaScript values used by the dashboard\<close>

text \<open>
  The dashboard is plain JavaScript. Numbers that the page computes with are XP amounts;
  they are modelled as \<open>int\<close> (integral amounts inside the range where a double is
  exact). Strings are \<open>string\<close>. An argument that the code tests with
  \<open>!x || !Array.isArray(x)\<close> is one of: \<open>undefined\<close>, \<open>null\<close>, some value that is not an
  array (an object literal, a number, ...), or an array.
\<close>

datatype 'a js_arg = Undefined | Null | NonArray | Arr "'a list"

subsection \<open>Number to string\<close>

definition digitChar :: "int \<Rightarrow> char" where
  "digitChar d = ''0123456789'' ! nat (d mod 10)"

text \<open>The decimal digits of a number that is not negative.\<close>

function showDigits :: "int \<Rightarrow> string" where
  "showDigits n =
     (if n < 10 then [digitChar n] else showDigits (n div 10) @ [digitChar (n mod 10)])"
  by pat_completeness auto
termination
  by (relation "measure nat") auto

declare showDigits.simps [simp del]

text \<open>\<open>String(n)\<close> for an integral number \<open>n\<close> (below \<open>10^21\<close> in magnitude).\<close>

definition showInt :: "int \<Rightarrow> string" where
  "showInt i = (if i < 0 then CHR ''-'' # showDigits (- i) else showDigits i)"

subsection \<open>\<open>(a / b).toFixed(2)\<close>\<close>

text \<open>
  \<open>a / b\<close> is a double: the quotient rounded to 53 significant bits, ties to even.
  \<open>toFixed(2)\<close> then takes the integer \<open>n\<close> with \<open>n / 100\<close> nearest to the exact value of
  that double, the larger \<open>n\<close> on a tie, and prints it with two decimals; a negative
  number prints as \<open>-\<close> followed by the result for its magnitude.
\<close>

function bitlen :: "int \<Rightarrow> int" where
  "bitlen n = (if n \<le> 0 then 0 else 1 + bitlen (n div 2))"
  by pat_completeness auto
termination
  by (relation "measure nat") auto

declare bitlen.simps [simp del]

text \<open>The integer nearest to \<open>a / b\<close> (\<open>a \<ge> 0\<close>, \<open>b > 0\<close>), the even one on a tie.\<close>

definition roundHalfEven :: "int \<Rightarrow> int \<Rightarrow> int" where
  "roundHalfEven a b =
     (let q = a div b; r = a mod b
      in if 2 * r < b then q else if b < 2 * r then q + 1 else if even q then q else q + 1)"

text \<open>\<open>a * 2 ^ (- e) / b\<close> as a fraction of integers.\<close>

definition scaled :: "int \<Rightarrow> int \<Rightarrow> int \<Rightarrow> int \<times> int" where
  "scaled a b e = (if e < 0 then (a * 2 ^ nat (- e), b) else (a, b * 2 ^ nat e))"

text \<open>
  The double nearest to \<open>a / b\<close> (\<open>a, b > 0\<close>), as a fraction \<open>(num, den)\<close>: the quotient
  is scaled by a power of two so that its integer part has exactly 53 bits, rounded, and
  scaled back.
\<close>

definition doubleDiv :: "int \<Rightarrow> int \<Rightarrow> int \<times> int" where
  "doubleDiv a b =
     (let e0 = bitlen a - bitlen b - 53;
          e = (if 2 ^ 53 \<le> fst (scaled a b e0) div snd (scaled a b e0) then e0 + 1 else e0);
          m = roundHalfEven (fst (scaled a b e)) (snd (scaled a b e))
      in if e < 0 then (m, 2 ^ nat (- e)) else (m * 2 ^ nat e, 1))"

definition pad2 :: "int \<Rightarrow> string" where
  "pad2 n = [digitChar (n div 10), digitChar n]"

definition toFixed2 :: "int \<Rightarrow> int \<Rightarrow> string" where
  "toFixed2 a b =
     (if a = 0 then ''0.00''
      else let (num, den) = doubleDiv \<bar>a\<bar> b;
               n = (200 * num + den) div (2 * den);
               s = showDigits (n div 100) @ ''.'' @ pad2 (n mod 100)
           in if a < 0 then CHR ''-'' # s else s)"

section \<open>Series transforms (calculations.js)\<close>

subsection \<open>Records delivered by the data source\<close>

record tx_object =
  o_name :: "string option"
  o_type :: string

record transaction =
  t_amount :: int
  t_type :: string
  t_createdAt :: string
  t_eventId :: int
  t_object :: "tx_object option"

record result_rec =
  r_grade :: "rat option"
  r_type :: string

text \<open>
  The host (browser) supplies date handling: \<open>new Date(s)\<close> yields a time value in
  milliseconds, or an invalid date (\<open>None\<close>, \<open>NaN\<close> as a number);
  \<open>toLocaleDateString()\<close> prints a date in the host's default locale and time zone.
\<close>

record host =
  parseDate :: "string \<Rightarrow> int option"
  toLocaleDateString :: "int option \<Rightarrow> string"

subsection \<open>\<open>Array.prototype.sort\<close> with a comparator\<close>

text \<open>
  A comparator result \<open>NaN\<close> counts as \<open>0\<close>. The sort is stable. For a comparator that
  is a consistent order every stable sort gives the same array; the insertion sort below
  is the one taken here (for an inconsistent comparator the language leaves the order to
  the implementation).
\<close>

definition sortCompare :: "('a \<Rightarrow> 'a \<Rightarrow> int option) \<Rightarrow> 'a \<Rightarrow> 'a \<Rightarrow> int" where
  "sortCompare comparefn x y = (case comparefn x y of None \<Rightarrow> 0 | Some v \<Rightarrow> v)"

fun insortBy :: "('a \<Rightarrow> 'a \<Rightarrow> int) \<Rightarrow> 'a \<Rightarrow> 'a list \<Rightarrow> 'a list" where
  "insortBy c x [] = [x]"
| "insortBy c x (y # ys) = (if c x y \<le> 0 then x # y # ys else y # insortBy c x ys)"

definition array_sort :: "('a \<Rightarrow> 'a \<Rightarrow> int option) \<Rightarrow> 'a list \<Rightarrow> 'a list" where
  "array_sort comparefn xs = foldr (insortBy (sortCompare comparefn)) xs []"

subsection \<open>calculateXpProgress\<close>

record xp_point =
  date :: string
  totalXp :: int
  totalXpMB :: string

text \<open>\<open>t.type === 'xp' && t.object?.type === 'project'\<close>\<close>

definition isProjectXp :: "transaction \<Rightarrow> bool" where
  "isProjectXp t =
     (t_type t = ''xp'' \<and>
      (case t_object t of None \<Rightarrow> False | Some ob \<Rightarrow> o_type ob = ''project''))"

text \<open>\<open>new Date(a.createdAt) - new Date(b.createdAt)\<close>\<close>

definition byCreatedAt :: "host \<Rightarrow> transaction \<Rightarrow> transaction \<Rightarrow> int option" where
  "byCreatedAt h a b =
     (case (parseDate h (t_createdAt a), parseDate h (t_createdAt b)) of
        (Some x, Some y) \<Rightarrow> Some (x - y)
      | _ \<Rightarrow> None)"

definition xpTransactions :: "host \<Rightarrow> transaction list \<Rightarrow> transaction list" where
  "xpTransactions h ts = array_sort (byCreatedAt h) (filter isProjectXp ts)"

text \<open>The \<open>map\<close> callback with its captured variable \<open>cumulativeXp\<close>.\<close>

fun accumulate :: "host \<Rightarrow> int \<Rightarrow> transaction list \<Rightarrow> xp_point list" where
  "accumulate h cumulativeXp [] = []"
| "accumulate h cumulativeXp (tx # txs) =
     (let cumulativeXp' = cumulativeXp + t_amount tx
      in \<lparr> date = toLocaleDateString h (parseDate h (t_createdAt tx)),
           totalXp = cumulativeXp',
           totalXpMB = toFixed2 cumulativeXp' 1000000 \<rparr>
         # accumulate h cumulativeXp' txs)"

definition calculateXpProgress :: "host \<Rightarrow> transaction js_arg \<Rightarrow> xp_point list" where
  "calculateXpProgress h transactions =
     (case transactions of
        Arr ts \<Rightarrow> accumulate h 0 (xpTransactions h ts)
      | _ \<Rightarrow> [])"

subsection \<open>calculateXpByProject\<close>

text \<open>
  The accumulator of the \<open>reduce\<close> is the object literal \<open>{}\<close>: its own properties,
  in insertion order (a key that is a canonical array index would come first; the order
  plays no role below), over the prototype \<open>Object.prototype\<close>. A property read
  \<open>acc[k]\<close> that finds no own property continues in the prototype, which holds the
  built-in methods and the accessor \<open>__proto__\<close>. The values that can be read are
  numbers, strings, a built-in function, or the prototype object itself.
\<close>

datatype jsval = Num int | Str string | NativeFunction string | ObjectPrototype

type_synonym jsobj = "(string \<times> jsval) list"

text \<open>The data properties of \<open>Object.prototype\<close>: property name, name of the function.\<close>

definition objectPrototypeMethods :: "(string \<times> string) list" where
  "objectPrototypeMethods =
     [(''constructor'', ''Object''),
      (''__defineGetter__'', ''__defineGetter__''),
      (''__defineSetter__'', ''__defineSetter__''),
      (''hasOwnProperty'', ''hasOwnProperty''),
      (''__lookupGetter__'', ''__lookupGetter__''),
      (''__lookupSetter__'', ''__lookupSetter__''),
      (''isPrototypeOf'', ''isPrototypeOf''),
      (''propertyIsEnumerable'', ''propertyIsEnumerable''),
      (''toString'', ''toString''),
      (''valueOf'', ''valueOf''),
      (''toLocaleString'', ''toLocaleString'')]"

definition inherited :: "string \<Rightarrow> jsval option" where
  "inherited k =
     (if k = ''__proto__'' then Some ObjectPrototype
      else map_option NativeFunction (map_of objectPrototypeMethods k))"

text \<open>\<open>acc[k]\<close>; \<open>None\<close> is \<open>undefined\<close>.\<close>

definition getProp :: "jsobj \<Rightarrow> string \<Rightarrow> jsval option" where
  "getProp acc k = (case map_of acc k of Some v \<Rightarrow> Some v | None \<Rightarrow> inherited k)"

fun setOwn :: "string \<Rightarrow> jsval \<Rightarrow> jsobj \<Rightarrow> jsobj" where
  "setOwn k v [] = [(k, v)]"
| "setOwn k v (p # ps) = (if fst p = k then (k, v) # ps else p # setOwn k v ps)"

text \<open>
  \<open>acc[k] = v\<close> for a number or string \<open>v\<close> (the only values the \<open>reduce\<close> assigns):
  the setter of \<open>__proto__\<close> ignores a value that is neither an object nor \<open>null\<close>;
  every other key becomes or updates an own property.
\<close>

definition setProp :: "jsobj \<Rightarrow> string \<Rightarrow> jsval \<Rightarrow> jsobj" where
  "setProp acc k v = (if k = ''__proto__'' then acc else setOwn k v acc)"

fun truthy :: "jsval \<Rightarrow> bool" where
  "truthy (Num n) = (n \<noteq> 0)"
| "truthy (Str s) = (s \<noteq> [])"
| "truthy (NativeFunction f) = True"
| "truthy ObjectPrototype = True"

text \<open>\<open>v || 0\<close>\<close>

definition orZero :: "jsval option \<Rightarrow> jsval" where
  "orZero v = (case v of None \<Rightarrow> Num 0 | Some w \<Rightarrow> if truthy w then w else Num 0)"

text \<open>
  \<open>String(v)\<close>. The text of a built-in function is the one V8 prints; engines differ in
  its white space.
\<close>

fun toString :: "jsval \<Rightarrow> string" where
  "toString (Num n) = showInt n"
| "toString (Str s) = s"
| "toString (NativeFunction f) = ''function '' @ f @ ''() { [native code] }''"
| "toString ObjectPrototype = ''[object Object]''"

text \<open>\<open>v + amount\<close>: addition of numbers, concatenation otherwise.\<close>

definition jsPlus :: "jsval \<Rightarrow> int \<Rightarrow> jsval" where
  "jsPlus v amount =
     (case v of Num n \<Rightarrow> Num (n + amount) | _ \<Rightarrow> Str (toString v @ showInt amount))"

text \<open>\<open>tx.object?.name || 'Unknown Project'\<close>\<close>

definition projectNameOf :: "transaction \<Rightarrow> string" where
  "projectNameOf tx =
     (case t_object tx of
        None \<Rightarrow> ''Unknown Project''
      | Some ob \<Rightarrow>
          (case o_name ob of
             None \<Rightarrow> ''Unknown Project''
           | Some n \<Rightarrow> if n = [] then ''Unknown Project'' else n))"

text \<open>The callback of the \<open>reduce\<close>.\<close>

definition addProjectXp :: "jsobj \<Rightarrow> transaction \<Rightarrow> jsobj" where
  "addProjectXp acc tx =
     (let projectName = projectNameOf tx
      in setProp acc projectName (jsPlus (orZero (getProp acc projectName)) (t_amount tx)))"

definition calculateXpByProject :: "transaction js_arg \<Rightarrow> jsobj" where
  "calculateXpByProject transactions =
     (case transactions of
        Arr ts \<Rightarrow> foldl addProjectXp [] (filter isProjectXp ts)
      | _ \<Rightarrow> [])"

text \<open>
  The sum of the values of a mapping, when they are all numbers (\<open>None\<close> when some value
  is not a number).
\<close>

fun sumValues :: "jsobj \<Rightarrow> int option" where
  "sumValues [] = Some 0"
| "sumValues ((k, Num n) # ps) = map_option (\<lambda>s. n + s) (sumValues ps)"
| "sumValues ((k, v) # ps) = None"

subsection \<open>calculatePassFailCounts\<close>

record counts =
  passed :: nat
  failed :: nat
  total :: nat

text \<open>\<open>res.type === 'tester' && res.grade !== null\<close>\<close>

definition isTested :: "result_rec \<Rightarrow> bool" where
  "isTested res = (r_type res = ''tester'' \<and> r_grade res \<noteq> None)"

definition countResult :: "counts \<Rightarrow> result_rec \<Rightarrow> counts" where
  "countResult acc res =
     (let acc1 = acc\<lparr>total := total acc + 1\<rparr>
      in case r_grade res of
           None \<Rightarrow> acc1
         | Some g \<Rightarrow>
             if g = 1 then acc1\<lparr>passed := passed acc1 + 1\<rparr>
             else if g < 1 \<and> 0 \<le> g then acc1\<lparr>failed := failed acc1 + 1\<rparr>
             else acc1)"

definition calculatePassFailCounts :: "result_rec js_arg \<Rightarrow> counts" where
  "calculatePassFailCounts results =
     (case results of
        Arr rs \<Rightarrow> foldl countResult \<lparr>passed = 0, failed = 0, total = 0\<rparr> (filter isTested rs)
      | _ \<Rightarrow> \<lparr>passed = 0, failed = 0, total = 0\<rparr>)"

section \<open>Session and authenticated fetch (config.js, auth.js, graphql.js)\<close>

subsection \<open>ERROR_MESSAGES\<close>

definition NETWORK_ERROR :: string where
  "NETWORK_ERROR = ''Network error occurred. Please check your internet connection and try again.''"

definition INVALID_CREDENTIALS :: string where
  "INVALID_CREDENTIALS = ''Invalid username/email or password.''"

definition SESSION_EXPIRED :: string where
  "SESSION_EXPIRED = ''Your session has expired. Please log in again.''"

definition DATA_FETCH_ERROR :: string where
  "DATA_FETCH_ERROR = ''Failed to fetch your data. Please try again later.''"

definition NO_DATA :: string where
  "NO_DATA = ''No data available for this section.''"

definition UNKNOWN_ERROR :: string where
  "UNKNOWN_ERROR = ''An unexpected error occurred. Please try again.''"

definition STORAGE_ERROR :: string where
  "STORAGE_ERROR = ''Failed to save your session. Please try again.''"

definition JWT_ERROR :: string where
  "JWT_ERROR = ''Session token is invalid. Please log in again.''"

definition GRAPHQL_ENDPOINT :: string where
  "GRAPHQL_ENDPOINT = ''https://learn.zone01kisumu.ke/api/graphql-engine/v1/graphql''"

subsection \<open>The page and the browser state\<close>

text \<open>
  An element of the page, as far as the code touches it: \<open>style.display\<close>, its content
  (\<open>innerHTML\<close> or \<open>textContent\<close>) and, for an input, its \<open>value\<close>.
  \<open>document.getElementById\<close> answers \<open>null\<close> (\<open>None\<close>) for an element the page lacks.
\<close>

record element =
  el_display :: string
  el_content :: string
  el_value :: string

text \<open>
  A log of the calls the code makes, in their order: \<open>console.error\<close> (its first
  argument), \<open>displayErrorMessage\<close> (its message, whether or not the page has the
  element to show it in), and \<open>fetch\<close> (endpoint, \<open>Authorization\<close> header, query).
\<close>

datatype event = ConsoleError string | DisplayError string | Fetch string string string

text \<open>
  \<open>storageWorks\<close>: whether touching \<open>localStorage\<close> succeeds (it throws otherwise, as
  with storage disabled). \<open>jwtToken\<close>: the stored item of that key. \<open>timers\<close>: the
  number of callbacks scheduled with \<open>setTimeout\<close>.
\<close>

record world =
  storageWorks :: bool
  jwtToken :: "string option"
  errorMessageDiv :: "element option"
  loginSection :: "element option"
  fixedHeaderContainer :: "element option"
  profileContentScrollArea :: "element option"
  usernameEmailInput :: "element option"
  passwordInput :: "element option"
  timers :: nat
  trace :: "event list"

definition emit :: "event \<Rightarrow> world \<Rightarrow> world" where
  "emit e w = w\<lparr>trace := trace w @ [e]\<rparr>"

subsection \<open>auth.js\<close>

definition displayErrorMessage :: "string \<Rightarrow> world \<Rightarrow> world" where
  "displayErrorMessage message w =
     (let w1 = emit (DisplayError message) w
      in case errorMessageDiv w1 of
           None \<Rightarrow> w1
         | Some d \<Rightarrow>
             w1\<lparr>errorMessageDiv := Some (d\<lparr>el_content := message, el_display := ''block''\<rparr>),
                timers := timers w1 + 1\<rparr>)"

definition hideErrorMessage :: "world \<Rightarrow> world" where
  "hideErrorMessage w =
     (case errorMessageDiv w of
        None \<Rightarrow> w
      | Some d \<Rightarrow> w\<lparr>errorMessageDiv := Some (d\<lparr>el_content := [], el_display := ''none''\<rparr>)\<rparr>)"

text \<open>
  \<open>logout\<close>: everything happens inside one \<open>try\<close>; only the access to the storage can
  throw, and it comes first.
\<close>

definition logout :: "world \<Rightarrow> world" where
  "logout w =
     (if \<not> storageWorks w then
        displayErrorMessage UNKNOWN_ERROR (emit (ConsoleError ''Logout error:'') w)
      else
        hideErrorMessage
          (w\<lparr>jwtToken := None,
             fixedHeaderContainer :=
               map_option (\<lambda>e. e\<lparr>el_display := ''none'', el_content := []\<rparr>) (fixedHeaderContainer w),
             profileContentScrollArea :=
               map_option (\<lambda>e. e\<lparr>el_display := ''none'', el_content := []\<rparr>)
                 (profileContentScrollArea w),
             loginSection := map_option (\<lambda>e. e\<lparr>el_display := ''flex''\<rparr>) (loginSection w),
             usernameEmailInput := map_option (\<lambda>e. e\<lparr>el_value := []\<rparr>) (usernameEmailInput w),
             passwordInput := map_option (\<lambda>e. e\<lparr>el_value := []\<rparr>) (passwordInput w)\<rparr>))"

subsection \<open>graphql.js\<close>

record extensions =
  ext_code :: "string option"

record gql_error =
  err_message :: string
  err_extensions :: "extensions option"

text \<open>
  What the network answers to the one request: \<open>fetch\<close> rejects, or a response arrives
  with a status and a body. The body either fails to parse as the expected JSON object
  (\<open>response.json()\<close> rejects, or reading \<open>data.errors\<close> throws), or is an object
  with an optional \<open>errors\<close> array and a \<open>data\<close> member.
\<close>

datatype 'd body = Unreadable | Json "gql_error list option" 'd

datatype 'd network = Rejects | Response nat "'d body"

text \<open>\<open>response.ok\<close>\<close>

definition ok :: "nat \<Rightarrow> bool" where
  "ok status = (200 \<le> status \<and> status \<le> 299)"

text \<open>\<open>err.extensions?.code === 'invalid-jwt'\<close>\<close>

definition isInvalidJWT :: "gql_error \<Rightarrow> bool" where
  "isInvalidJWT err =
     (case err_extensions err of None \<Rightarrow> False | Some x \<Rightarrow> ext_code x = Some ''invalid-jwt'')"

text \<open>The \<open>catch\<close> of the second \<open>try\<close>.\<close>

definition fetchFailed :: "world \<Rightarrow> 'd option \<times> world" where
  "fetchFailed w =
     (None, displayErrorMessage NETWORK_ERROR (emit (ConsoleError ''GraphQL fetch error:'') w))"

text \<open>
  \<open>fetchGraphQLData(query)\<close>; the result \<open>None\<close> is \<open>null\<close>. A stored token that is the
  empty string is falsy, like a missing one: both take the branch \<open>!jwtToken\<close>.
\<close>

definition sessionMissing :: "world \<Rightarrow> 'd option \<times> world" where
  "sessionMissing w =
     (None, logout (displayErrorMessage SESSION_EXPIRED
                     (emit (ConsoleError ''No JWT token found'') w)))"

definition fetchGraphQLData :: "'d network \<Rightarrow> string \<Rightarrow> world \<Rightarrow> 'd option \<times> world" where
  "fetchGraphQLData net query w =
     (if \<not> storageWorks w then
        (None, displayErrorMessage STORAGE_ERROR (emit (ConsoleError ''JWT retrieval error:'') w))
      else
        case jwtToken w of
          None \<Rightarrow> sessionMissing w
        | Some token \<Rightarrow>
            if token = [] then sessionMissing w
            else
              let w1 = emit (Fetch GRAPHQL_ENDPOINT (''Bearer '' @ token) query) w
              in case net of
                   Rejects \<Rightarrow> fetchFailed w1
                 | Response status b \<Rightarrow>
                     if \<not> ok status then
                       if status = 401 \<or> status = 403 then
                         (None, logout (displayErrorMessage SESSION_EXPIRED w1))
                       else fetchFailed w1
                     else
                       (case b of
                          Unreadable \<Rightarrow> fetchFailed w1
                        | Json errors d \<Rightarrow>
                            (case errors of
                               Some errs \<Rightarrow>
                                 let w2 = emit (ConsoleError ''GraphQL errors:'') w1
                                 in if list_ex isInvalidJWT errs then
                                      (None, logout (displayErrorMessage JWT_ERROR w2))
                                    else (None, displayErrorMessage DATA_FETCH_ERROR w2)
                             | None \<Rightarrow> (Some d, w1))))"

text \<open>The events a call added, and the messages among them.\<close>

definition newEvents :: "world \<Rightarrow> world \<Rightarrow> event list" where
  "newEvents w w' = drop (length (trace w)) (trace w')"

fun displayed :: "event list \<Rightarrow> string list" where
  "displayed [] = []"
| "displayed (DisplayError m # es) = m # displayed es"
| "displayed (e # es) = displayed es"

fun requests :: "event list \<Rightarrow> (string \<times> string \<times> string) list" where
  "requests [] = []"
| "requests (Fetch url auth q # es) = (url, auth, q) # requests es"
| "requests (e # es) = requests es"

section \<open>Chart renderers (charts.js)\<close>

text \<open>
  A renderer takes a container element (possibly \<open>null\<close>) and its data, a parameter
  with a default value: the default replaces \<open>undefined\<close> only, not \<open>null\<close>.

  The container is recorded by its child nodes: a text node, or the drawing that was
  appended. A drawing is recorded by its texts: the title, the category labels (dates
  under the line chart, project names under the bars, skill names around the radar), the
  value labels above the bars, and the tooltip of every data mark, in drawing order.
  Coordinates and scale ticks are floating-point geometry and are not recorded.
\<close>

datatype 'a js_param = ParamUndefined | ParamNull | Param 'a

record chart =
  c_title :: string
  c_categories :: "string list"
  c_valueLabels :: "string list"
  c_tooltips :: "string list"

datatype node = TextNode string | Svg chart

type_synonym container = "node list"

datatype outcome = Returns | Throws string

text \<open>A default parameter value: \<open>function f(container, data = dflt)\<close>.\<close>

definition withDefault :: "'a \<Rightarrow> 'a js_param \<Rightarrow> 'a js_param" where
  "withDefault dflt p = (case p of ParamUndefined \<Rightarrow> Param dflt | _ \<Rightarrow> p)"

text \<open>\<open>container.textContent = s\<close> on an emptied container.\<close>

definition textContent :: "string \<Rightarrow> container" where
  "textContent s = (if s = [] then [] else [TextNode s])"

text \<open>\<open>container.appendChild(n)\<close>\<close>

definition appendChild :: "container \<Rightarrow> node \<Rightarrow> container" where
  "appendChild c n = c @ [n]"

definition nthOpt :: "'a list \<Rightarrow> nat \<Rightarrow> 'a option" where
  "nthOpt xs i = (if i < length xs then Some (xs ! i) else None)"

subsection \<open>drawSkillsRadarChart\<close>

record skill_node =
  s_type :: "string option"
  s_amount :: int

record skill =
  sk_name :: string
  sk_value :: int

text \<open>\<open>item.type?.startsWith('skill_')\<close>\<close>

definition isSkill :: "skill_node \<Rightarrow> bool" where
  "isSkill item = (case s_type item of None \<Rightarrow> False | Some t \<Rightarrow> take 6 t = ''skill_'')"

text \<open>\<open>s.replace(a, b)\<close> for single characters: the first occurrence only.\<close>

fun replaceFirst :: "char \<Rightarrow> char \<Rightarrow> string \<Rightarrow> string" where
  "replaceFirst a b [] = []"
| "replaceFirst a b (c # cs) = (if c = a then b # cs else c # replaceFirst a b cs)"

text \<open>
  \<open>item.type.replace('skill_', '').replace('-', ' ')\<close> on a type that starts with
  \<open>skill_\<close>: the first occurrence of the prefix is the prefix itself.
\<close>

definition toSkill :: "skill_node \<Rightarrow> skill" where
  "toSkill item =
     \<lparr> sk_name = (case s_type item of
                     None \<Rightarrow> []
                   | Some t \<Rightarrow> replaceFirst (CHR ''-'') (CHR '' '') (drop 6 t)),
       sk_value = s_amount item \<rparr>"

definition radarChart :: "skill list \<Rightarrow> chart" where
  "radarChart skills =
     \<lparr> c_title = ''Skills Radar Chart'',
       c_categories = map sk_name skills,
       c_valueLabels = [],
       c_tooltips = map (\<lambda>sk. sk_name sk @ '': '' @ showInt (sk_value sk)) skills \<rparr>"

definition drawSkillsRadarChart ::
    "container option \<Rightarrow> skill_node list js_param \<Rightarrow> outcome \<times> container option" where
  "drawSkillsRadarChart container data =
     (case container of
        None \<Rightarrow> (Returns, None)
      | Some _ \<Rightarrow>
          (case withDefault [] data of
             Param items \<Rightarrow>
               if items = [] then (Returns, Some (textContent NO_DATA))
               else
                 let skills = map toSkill (filter isSkill items)
                 in if skills = [] then (Returns, Some (textContent NO_DATA))
                    else (Returns, Some (appendChild [] (Svg (radarChart skills))))
           | _ \<Rightarrow> (Returns, Some (textContent NO_DATA))))"

subsection \<open>drawXpProgressLineChart\<close>

text \<open>
  The index of the \<open>i\<close>-th date label, \<open>Math.floor(i * (n - 1) / (numLabels - 1))\<close>.
  With a single point \<open>numLabels\<close> is \<open>1\<close> and the quotient is \<open>0 / 0\<close>, that is
  \<open>NaN\<close> (\<open>None\<close>); otherwise the quotient of two small integers, floored.
\<close>

definition labelIndex :: "nat \<Rightarrow> nat \<Rightarrow> nat \<Rightarrow> nat option" where
  "labelIndex i n numLabels =
     (if numLabels - 1 = 0 then None else Some ((i * (n - 1)) div (numLabels - 1)))"

text \<open>\<open>data[index].date\<close>: reading \<open>date\<close> from \<open>undefined\<close> throws.\<close>

definition dateLabel :: "xp_point list \<Rightarrow> nat option \<Rightarrow> string option" where
  "dateLabel data index =
     (case index of None \<Rightarrow> None | Some j \<Rightarrow> map_option date (nthOpt data j))"

fun sequence :: "'a option list \<Rightarrow> 'a list option" where
  "sequence [] = Some []"
| "sequence (None # xs) = None"
| "sequence (Some x # xs) = map_option ((#) x) (sequence xs)"

definition dateLabels :: "xp_point list \<Rightarrow> string list option" where
  "dateLabels data =
     (let n = length data; numLabels = min n 5
      in sequence (map (\<lambda>i. dateLabel data (labelIndex i n numLabels)) [0..<numLabels]))"

definition lineChart :: "string list \<Rightarrow> xp_point list \<Rightarrow> chart" where
  "lineChart labels data =
     \<lparr> c_title = ''Project XP Progress Over Time'',
       c_categories = labels,
       c_valueLabels = [],
       c_tooltips = map (\<lambda>d. ''Date: '' @ date d @ '', XP: '' @ totalXpMB d @ '' MB'') data \<rparr>"

definition drawXpProgressLineChart ::
    "container option \<Rightarrow> xp_point list js_param \<Rightarrow> outcome \<times> container option" where
  "drawXpProgressLineChart container data =
     (case container of
        None \<Rightarrow> (Returns, None)
      | Some _ \<Rightarrow>
          (case withDefault [] data of
             Param points \<Rightarrow>
               if points = [] then (Returns, Some (textContent NO_DATA))
               else
                 (case dateLabels points of
                    None \<Rightarrow> (Throws ''TypeError'', Some [])
                  | Some labels \<Rightarrow> (Returns, Some (appendChild [] (Svg (lineChart labels points)))))
           | _ \<Rightarrow> (Returns, Some (textContent NO_DATA))))"

subsection \<open>drawXpByProjectBarChart\<close>

text \<open>
  The data is an object: its own properties as pairs, in the order of \<open>Object.keys\<close>,
  each key once. \<open>data[k]\<close> is \<open>undefined\<close> (\<open>None\<close>) for a key that is not there, and
  a difference with \<open>undefined\<close> is \<open>NaN\<close>.
\<close>

type_synonym xp_map = "(string \<times> int) list"

record bar =
  b_name :: string
  b_xp :: "int option"

text \<open>\<open>(a, b) => data[b] - data[a]\<close>\<close>

definition byXpDescending :: "xp_map \<Rightarrow> string \<Rightarrow> string \<Rightarrow> int option" where
  "byXpDescending data a b =
     (case (map_of data b, map_of data a) of
        (Some x, Some y) \<Rightarrow> Some (x - y)
      | _ \<Rightarrow> None)"

definition projects :: "xp_map \<Rightarrow> string list" where
  "projects data = array_sort (byXpDescending data) (map fst data)"

definition displayProjects :: "xp_map \<Rightarrow> string list" where
  "displayProjects data = take 10 (projects data)"

definition displayData :: "xp_map \<Rightarrow> bar list" where
  "displayData data = map (\<lambda>proj. \<lparr> b_name = proj, b_xp = map_of data proj \<rparr>) (displayProjects data)"

text \<open>A number, or \<open>undefined\<close>, inside a template string or as text content.\<close>

definition showNumber :: "int option \<Rightarrow> string" where
  "showNumber v = (case v of None \<Rightarrow> ''undefined'' | Some n \<Rightarrow> showInt n)"

definition barChart :: "xp_map \<Rightarrow> chart" where
  "barChart data =
     \<lparr> c_title = ''XP Earned by Project (Top 10)'',
       c_categories = displayProjects data,
       c_valueLabels = map (\<lambda>d. showNumber (b_xp d)) (displayData data),
       c_tooltips = map (\<lambda>d. b_name d @ '': '' @ showNumber (b_xp d) @ '' XP'') (displayData data) \<rparr>"

text \<open>\<open>Object.keys(null)\<close> throws a \<open>TypeError\<close>, after the container was emptied.\<close>

definition drawXpByProjectBarChart ::
    "container option \<Rightarrow> xp_map js_param \<Rightarrow> outcome \<times> container option" where
  "drawXpByProjectBarChart container data =
     (case container of
        None \<Rightarrow> (Returns, None)
      | Some _ \<Rightarrow>
          (case withDefault [] data of
             Param entries \<Rightarrow>
               if projects entries = [] then (Returns, Some (textContent NO_DATA))
               else (Returns, Some (appendChild [] (Svg (barChart entries))))
           | _ \<Rightarrow> (Throws ''TypeError'', Some [])))"

section \<open>The transforms on a store of arrays\<close>

text \<open>
  An array has an identity: a function that receives one holds a reference and could
  change it. The store lists the arrays of records that exist; an address is a position
  in the list. A value handed to a transform is \<open>undefined\<close>, \<open>null\<close>, a reference to
  an array, or something else (a number, a string, an object that is no array).
  \<open>filter\<close> creates a new array; \<open>sort\<close> reorders the array it is called on, in place;
  \<open>map\<close> and \<open>reduce\<close> build their results from values created in the call, which
  are returned as values.
\<close>

type_synonym 'a store = "'a list list"

datatype jsvalue = VUndefined | VNull | VArray nat | VOther

text \<open>What the guard \<open>!x || !Array.isArray(x)\<close> finds behind a value.\<close>

definition argOf :: "'a store \<Rightarrow> jsvalue \<Rightarrow> 'a js_arg" where
  "argOf s v =
     (case v of
        VUndefined \<Rightarrow> Undefined
      | VNull \<Rightarrow> Null
      | VOther \<Rightarrow> NonArray
      | VArray a \<Rightarrow> (case nthOpt s a of Some xs \<Rightarrow> Arr xs | None \<Rightarrow> NonArray))"

text \<open>\<open>xs.filter(p)\<close>: the address of the new array and the store that holds it.\<close>

definition array_filter :: "('a \<Rightarrow> bool) \<Rightarrow> 'a list \<Rightarrow> 'a store \<Rightarrow> nat \<times> 'a store" where
  "array_filter p xs s = (length s, s @ [filter p xs])"

text \<open>\<open>.sort(comparefn)\<close> on the array at an address.\<close>

definition sort_in_place :: "('a \<Rightarrow> 'a \<Rightarrow> int option) \<Rightarrow> nat \<Rightarrow> 'a store \<Rightarrow> 'a store" where
  "sort_in_place comparefn a s =
     (case nthOpt s a of Some xs \<Rightarrow> s[a := array_sort comparefn xs] | None \<Rightarrow> s)"

text \<open>
  The three transforms with the store written out. (An address returned by
  \<open>array_filter\<close> is in the store; the branch \<open>None\<close> is there for totality.)
\<close>

definition calculateXpProgress_store ::
    "host \<Rightarrow> jsvalue \<Rightarrow> transaction store \<Rightarrow> xp_point list \<times> transaction store" where
  "calculateXpProgress_store h transactions s =
     (case argOf s transactions of
        Arr ts \<Rightarrow>
          (let (a, s1) = array_filter isProjectXp ts s;
               s2 = sort_in_place (byCreatedAt h) a s1
           in case nthOpt s2 a of
                Some xs \<Rightarrow> (accumulate h 0 xs, s2)
              | None \<Rightarrow> ([], s2))
      | _ \<Rightarrow> ([], s))"

definition calculateXpByProject_store ::
    "jsvalue \<Rightarrow> transaction store \<Rightarrow> jsobj \<times> transaction store" where
  "calculateXpByProject_store transactions s =
     (case argOf s transactions of
        Arr ts \<Rightarrow>
          (let (a, s1) = array_filter isProjectXp ts s
           in case nthOpt s1 a of
                Some xs \<Rightarrow> (foldl addProjectXp [] xs, s1)
              | None \<Rightarrow> ([], s1))
      | _ \<Rightarrow> ([], s))"

definition calculatePassFailCounts_store ::
    "jsvalue \<Rightarrow> result_rec store \<Rightarrow> counts \<times> result_rec store" where
  "calculatePassFailCounts_store results s =
     (case argOf s results of
        Arr rs \<Rightarrow>
          (let (a, s1) = array_filter isTested rs s
           in case nthOpt s1 a of
                Some testedResults \<Rightarrow>
                  (foldl countResult \<lparr>passed = 0, failed = 0, total = 0\<rparr> testedResults, s1)
              | None \<Rightarrow> (\<lparr>passed = 0, failed = 0, total = 0\<rparr>, s1))
      | _ \<Rightarrow> (\<lparr>passed = 0, failed = 0, total = 0\<rparr>, s))"

subsection \<open>The cumulative series as the specification words it\<close>

text \<open>
  Following the specification: keep the records with type \<open>xp\<close> and object type
  \<open>project\<close>; sort them ascending by \<open>createdAt\<close>; scan from left to right with a
  running sum; emit one point for each record, with the running sum and a readable date
  derived from \<open>createdAt\<close>, which is the host's. The time of a record is the time value
  its \<open>createdAt\<close> parses to (an unparsable date has none, and no place in an ascending
  order: the series is used below for records that parse only).
\<close>

definition timeOf :: "host \<Rightarrow> transaction \<Rightarrow> int" where
  "timeOf h t = (case parseDate h (t_createdAt t) of Some ms \<Rightarrow> ms | None \<Rightarrow> 0)"

definition seriesPoint :: "host \<Rightarrow> transaction list \<Rightarrow> nat \<Rightarrow> xp_point" where
  "seriesPoint h xs k =
     (let runningSum = sum_list (map t_amount (take (Suc k) xs))
      in \<lparr> date = toLocaleDateString h (parseDate h (t_createdAt (xs ! k))),
           totalXp = runningSum,
           totalXpMB = toFixed2 runningSum 1000000 \<rparr>)"

definition cumulativeXpSeries :: "host \<Rightarrow> transaction list \<Rightarrow> xp_point list" where
  "cumulativeXpSeries h ts =
     (let xs = sort_key (timeOf h) (filter isProjectXp ts)
      in map (seriesPoint h xs) [0..<length xs])"

section \<open>Two hosts and some inputs\<close>

text \<open>
  Two browsers in time zone UTC, one with locale \<open>en-US\<close> and one with \<open>en-GB\<close>. Of
  the date formats a browser reads, the date-only form \<open>YYYY-MM-DD\<close> is modelled (it
  denotes midnight UTC); every other string is an invalid date for these two hosts.
  \<open>en-US\<close> prints month/day/year without padding, \<open>en-GB\<close> prints day/month/year with
  two-digit day and month.
\<close>

definition digitVal :: "char \<Rightarrow> int option" where
  "digitVal c =
     (let v = (of_char c :: int) in if 48 \<le> v \<and> v \<le> 57 then Some (v - 48) else None)"

fun numberOf :: "int \<Rightarrow> string \<Rightarrow> int option" where
  "numberOf acc [] = Some acc"
| "numberOf acc (c # cs) =
     (case digitVal c of None \<Rightarrow> None | Some v \<Rightarrow> numberOf (10 * acc + v) cs)"

definition isLeapYear :: "int \<Rightarrow> bool" where
  "isLeapYear y = (y mod 4 = 0 \<and> (y mod 100 \<noteq> 0 \<or> y mod 400 = 0))"

definition daysInMonth :: "int \<Rightarrow> int \<Rightarrow> int" where
  "daysInMonth y m =
     (if m = 2 then (if isLeapYear y then 29 else 28)
      else if m = 4 \<or> m = 6 \<or> m = 9 \<or> m = 11 then 30 else 31)"

text \<open>Days between 1970-01-01 and a date of the Gregorian calendar, and back.\<close>

definition daysFromCivil :: "int \<Rightarrow> int \<Rightarrow> int \<Rightarrow> int" where
  "daysFromCivil y m d =
     (let y1 = (if m \<le> 2 then y - 1 else y);
          era = y1 div 400;
          yoe = y1 - era * 400;
          doy = (153 * (if 2 < m then m - 3 else m + 9) + 2) div 5 + d - 1;
          doe = yoe * 365 + yoe div 4 - yoe div 100 + doy
      in era * 146097 + doe - 719468)"

definition civilFromDays :: "int \<Rightarrow> int \<times> int \<times> int" where
  "civilFromDays z =
     (let z1 = z + 719468;
          era = z1 div 146097;
          doe = z1 - era * 146097;
          yoe = (doe - doe div 1460 + doe div 36524 - doe div 146096) div 365;
          doy = doe - (365 * yoe + yoe div 4 - yoe div 100);
          mp = (5 * doy + 2) div 153;
          d = doy - (153 * mp + 2) div 5 + 1;
          m = (if mp < 10 then mp + 3 else mp - 9);
          y = yoe + era * 400 + (if m \<le> 2 then 1 else 0)
      in (y, m, d))"

definition parseIsoDate :: "string \<Rightarrow> int option" where
  "parseIsoDate s =
     (if length s = 10 \<and> s ! 4 = CHR ''-'' \<and> s ! 7 = CHR ''-'' then
        (case (numberOf 0 (take 4 s), numberOf 0 (take 2 (drop 5 s)), numberOf 0 (drop 8 s)) of
           (Some y, Some m, Some d) \<Rightarrow>
             if 1 \<le> m \<and> m \<le> 12 \<and> 1 \<le> d \<and> d \<le> daysInMonth y m
             then Some (daysFromCivil y m d * 86400000)
             else None
         | _ \<Rightarrow> None)
      else None)"

definition utcDate :: "(int \<times> int \<times> int \<Rightarrow> string) \<Rightarrow> int option \<Rightarrow> string" where
  "utcDate fmt t =
     (case t of None \<Rightarrow> ''Invalid Date'' | Some ms \<Rightarrow> fmt (civilFromDays (ms div 86400000)))"

definition formatUS :: "int \<times> int \<times> int \<Rightarrow> string" where
  "formatUS ymd = (case ymd of (y, m, d) \<Rightarrow> showInt m @ ''/'' @ showInt d @ ''/'' @ showInt y)"

definition formatGB :: "int \<times> int \<times> int \<Rightarrow> string" where
  "formatGB ymd =
     (case ymd of (y, m, d) \<Rightarrow> pad2 d @ ''/'' @ pad2 m @ ''/'' @ showInt y)"

definition hostUS :: host where
  "hostUS = \<lparr> parseDate = parseIsoDate, toLocaleDateString = utcDate formatUS \<rparr>"

definition hostGB :: host where
  "hostGB = \<lparr> parseDate = parseIsoDate, toLocaleDateString = utcDate formatGB \<rparr>"

text \<open>An XP record of a project: name, amount, date.\<close>

definition projectXp :: "string \<Rightarrow> int \<Rightarrow> string \<Rightarrow> transaction" where
  "projectXp n a d =
     \<lparr> t_amount = a, t_type = ''xp'', t_createdAt = d, t_eventId = 75,
       t_object = Some \<lparr> o_name = Some n, o_type = ''project'' \<rparr> \<rparr>"

text \<open>
  Two project records on consecutive days, a skill grant and an XP grant for an exercise.
\<close>

definition sampleTransactions :: "transaction list" where
  "sampleTransactions =
     [projectXp ''P2'' 2000000 ''2024-01-02'',
      \<lparr> t_amount = 25, t_type = ''skill_go'', t_createdAt = ''2024-01-01'', t_eventId = 75,
        t_object = Some \<lparr> o_name = Some ''P1'', o_type = ''project'' \<rparr> \<rparr>,
      projectXp ''P1'' 1000000 ''2024-01-01'',
      \<lparr> t_amount = 400, t_type = ''xp'', t_createdAt = ''2024-01-01'', t_eventId = 75,
        t_object = Some \<lparr> o_name = Some ''quad'', o_type = ''exercise'' \<rparr> \<rparr>]"

text \<open>
  A page with every element in place, a profile on display and a stored token; the same
  page without a token.
\<close>

definition shownElement :: "string \<Rightarrow> string \<Rightarrow> element" where
  "shownElement d c = \<lparr> el_display = d, el_content = c, el_value = [] \<rparr>"

definition loadedWorld :: world where
  "loadedWorld =
     \<lparr> storageWorks = True,
       jwtToken = Some ''header.payload.signature'',
       errorMessageDiv = Some (shownElement ''none'' []),
       loginSection = Some (shownElement ''none'' ''<form>''),
       fixedHeaderContainer = Some (shownElement ''flex'' ''<header>''),
       profileContentScrollArea = Some (shownElement ''flex'' ''<section>''),
       usernameEmailInput = Some \<lparr> el_display = [], el_content = [], el_value = ''user'' \<rparr>,
       passwordInput = Some \<lparr> el_display = [], el_content = [], el_value = ''secret'' \<rparr>,
       timers = 0,
       trace = [] \<rparr>"


definition invalidJwtError :: gql_error where
  "invalidJwtError =
     \<lparr> err_message = ''Could not verify JWT'',
       err_extensions = Some \<lparr> ext_code = Some ''invalid-jwt'' \<rparr> \<rparr>"

definition otherErrors :: "gql_error list" where
  "otherErrors =
     [\<lparr> err_message = ''field not found'', err_extensions = None \<rparr>,
      \<lparr> err_message = ''timeout'',
        err_extensions = Some \<lparr> ext_code = Some ''unexpected'' \<rparr> \<rparr>]"

text \<open>Fifteen projects with sums that all differ, and a container with old content.\<close>

definition fifteenProjects :: xp_map where
  "fifteenProjects =
     [(''p01'', 700), (''p02'', 1500), (''p03'', 100), (''p04'', 1200), (''p05'', 400),
      (''p06'', 900), (''p07'', 1400), (''p08'', 200), (''p09'', 1100), (''p10'', 600),
      (''p11'', 1300), (''p12'', 500), (''p13'', 1000), (''p14'', 800), (''p15'', 300)]"

definition usedContainer :: container where
  "usedContainer = [TextNode ''Loading...'']"

text \<open>A store that holds the sample list and one other array.\<close>

definition sampleStore :: "transaction store" where
  "sampleStore = [sampleTransactions, [projectXp ''P3'' 7 ''2024-01-03'']]"

text \<open>A store of results: one array with a pass, a fail, an ungraded and an odd grade.\<close>

definition sampleResults :: "result_rec store" where
  "sampleResults =
     [[\<lparr> r_grade = Some 1, r_type = ''tester'' \<rparr>,
       \<lparr> r_grade = Some (1 / 2), r_type = ''tester'' \<rparr>,
       \<lparr> r_grade = None, r_type = ''tester'' \<rparr>,
       \<lparr> r_grade = Some (6 / 5), r_type = ''tester'' \<rparr>,
       \<lparr> r_grade = Some 1, r_type = ''user_audit'' \<rparr>]]"

section \<open>Properties of the series transforms\<close>

subsection \<open>Sorting keeps the elements\<close>

lemma mset_insortBy: "mset (insortBy c x ys) = add_mset x (mset ys)"
  by (induction ys) auto

lemma mset_array_sort: "mset (array_sort comparefn xs) = mset xs"
  unfolding array_sort_def by (induction xs) (auto simp: mset_insortBy)

lemma set_array_sort: "set (array_sort comparefn xs) = set xs"
  using mset_array_sort [of comparefn xs] by (metis set_mset_mset)

lemma length_array_sort: "length (array_sort comparefn xs) = length xs"
  using mset_array_sort [of comparefn xs] by (metis size_mset)

lemma sum_list_array_sort:
  fixes f :: "'a \<Rightarrow> int"
  shows "sum_list (map f (array_sort comparefn xs)) = sum_list (map f xs)"
proof -
  have "sum_mset (mset (map f (array_sort comparefn xs))) = sum_mset (mset (map f xs))"
    by (simp add: mset_array_sort)
  then show ?thesis by (simp only: sum_mset_sum_list)
qed

subsection \<open>The running sum\<close>

lemma length_accumulate: "length (accumulate h c xs) = length xs"
  by (induction xs arbitrary: c) (auto simp: Let_def)

lemma accumulate_lower:
  "\<forall>t \<in> set xs. 0 \<le> t_amount t \<Longrightarrow> p \<in> set (accumulate h c xs) \<Longrightarrow> c \<le> totalXp p"
proof (induction xs arbitrary: c)
  case Nil
  then show ?case by simp
next
  case (Cons x xs)
  from Cons.prems have x: "0 \<le> t_amount x" and xs: "\<forall>t \<in> set xs. 0 \<le> t_amount t"
    by auto
  from Cons.prems(2) consider "totalXp p = c + t_amount x"
    | "p \<in> set (accumulate h (c + t_amount x) xs)"
    by (auto simp: Let_def)
  then show ?case
  proof cases
    case 1
    with x show ?thesis by simp
  next
    case 2
    from Cons.IH [OF xs 2] x show ?thesis by simp
  qed
qed

lemma sorted_accumulate:
  "\<forall>t \<in> set xs. 0 \<le> t_amount t \<Longrightarrow> sorted (map totalXp (accumulate h c xs))"
proof (induction xs arbitrary: c)
  case Nil
  then show ?case by simp
next
  case (Cons x xs)
  then have xs: "\<forall>t \<in> set xs. 0 \<le> t_amount t" by auto
  have "\<forall>p \<in> set (accumulate h (c + t_amount x) xs). c + t_amount x \<le> totalXp p"
    using accumulate_lower [OF xs] by blast
  with Cons.IH [OF xs] show ?case by (simp add: Let_def)
qed

lemma last_accumulate:
  "xs \<noteq> [] \<Longrightarrow> totalXp (last (accumulate h c xs)) = c + sum_list (map t_amount xs)"
proof (induction xs arbitrary: c)
  case Nil
  then show ?case by simp
next
  case (Cons x xs)
  show ?case
  proof (cases "xs = []")
    case True
    then show ?thesis by (simp add: Let_def)
  next
    case False
    then have "accumulate h (c + t_amount x) xs \<noteq> []"
      using length_accumulate [of h "c + t_amount x" xs] by (metis length_0_conv)
    with Cons.IH [OF False] show ?thesis by (simp add: Let_def)
  qed
qed

text \<open>
  C1, as stated, at an input with a negative amount: the series \<open>5, 2\<close> decreases.
  Nothing in \<open>calculateXpProgress\<close> looks at the sign of an amount.
\<close>

theorem calculateXpProgress_negative_amount:
  "\<not> sorted (map totalXp (calculateXpProgress hostUS
        (Arr [projectXp ''P1'' 5 ''2024-01-01'', projectXp ''P2'' (- 3) ''2024-01-02''])))"
  by code_simp

text \<open>
  C1, amended: for every transaction list whose records with type \<open>xp\<close> and object type
  \<open>project\<close> have amounts that are not negative, the \<open>totalXp\<close> values of the output of
  \<open>calculateXpProgress\<close> are non-decreasing from first to last; and for every transaction
  list the output has as many points as the list has records with type \<open>xp\<close> and object
  type \<open>project\<close>.
\<close>

theorem calculateXpProgress_series:
  "((\<forall>t \<in> set ts. isProjectXp t \<longrightarrow> 0 \<le> t_amount t) \<longrightarrow>
      sorted (map totalXp (calculateXpProgress h (Arr ts)))) \<and>
   length (calculateXpProgress h (Arr ts)) = length (filter isProjectXp ts)"
proof (intro conjI impI)
  show "length (calculateXpProgress h (Arr ts)) = length (filter isProjectXp ts)"
    by (simp add: calculateXpProgress_def length_accumulate xpTransactions_def length_array_sort)
next
  assume "\<forall>t \<in> set ts. isProjectXp t \<longrightarrow> 0 \<le> t_amount t"
  then have "\<forall>t \<in> set (xpTransactions h ts). 0 \<le> t_amount t"
    by (simp add: xpTransactions_def set_array_sort)
  then have "sorted (map totalXp (accumulate h 0 (xpTransactions h ts)))"
    by (rule sorted_accumulate)
  then show "sorted (map totalXp (calculateXpProgress h (Arr ts)))"
    by (simp add: calculateXpProgress_def)
qed

text \<open>
  C1, amended, at the sample list: its two project records have the amounts \<open>2000000\<close>
  and \<open>1000000\<close>, and the series has one non-decreasing point for each of them.
\<close>

theorem calculateXpProgress_series_witness:
  "map t_amount (filter isProjectXp sampleTransactions) = [2000000, 1000000] \<and>
   sorted (map totalXp (calculateXpProgress hostUS (Arr sampleTransactions))) \<and>
   length (calculateXpProgress hostUS (Arr sampleTransactions)) = 2"
proof -
  have a: "map t_amount (filter isProjectXp sampleTransactions) = [2000000, 1000000]"
    by code_simp
  have h: "\<forall>t \<in> set sampleTransactions. isProjectXp t \<longrightarrow> 0 \<le> t_amount t"
    by code_simp
  have n: "length (filter isProjectXp sampleTransactions) = 2"
    by code_simp
  from calculateXpProgress_series [of sampleTransactions hostUS] a h n show ?thesis
    by simp
qed

subsection \<open>Sums per project\<close>

lemma sumValues_lookup:
  "sumValues acc = Some s \<Longrightarrow> map_of acc k = Some v \<Longrightarrow> \<exists>n. v = Num n"
  by (induction acc arbitrary: s rule: sumValues.induct) (auto split: if_splits)

lemma sumValues_setOwn_new:
  "sumValues acc = Some s \<Longrightarrow> map_of acc k = None \<Longrightarrow>
   sumValues (setOwn k (Num a) acc) = Some (s + a)"
  by (induction acc arbitrary: s rule: sumValues.induct) (auto split: if_splits)

lemma sumValues_setOwn_update:
  "sumValues acc = Some s \<Longrightarrow> map_of acc k = Some (Num n) \<Longrightarrow>
   sumValues (setOwn k (Num m) acc) = Some (s - n + m)"
  by (induction acc arbitrary: s rule: sumValues.induct) (auto split: if_splits)

lemma inherited_proto: "inherited k = None \<Longrightarrow> k \<noteq> ''__proto__''"
  by (auto simp: inherited_def)

lemma sumValues_addProjectXp:
  assumes "sumValues acc = Some s" and "inherited (projectNameOf tx) = None"
  shows "sumValues (addProjectXp acc tx) = Some (s + t_amount tx)"
proof (cases "map_of acc (projectNameOf tx)")
  case None
  with assms show ?thesis
    by (simp add: addProjectXp_def getProp_def orZero_def jsPlus_def setProp_def
        inherited_proto sumValues_setOwn_new)
next
  case (Some v)
  with assms(1) obtain n where v: "v = Num n"
    using sumValues_lookup by blast
  have "orZero (Some (Num n)) = Num n"
    by (simp add: orZero_def)
  with Some v assms show ?thesis
    by (simp add: addProjectXp_def getProp_def jsPlus_def setProp_def
        inherited_proto sumValues_setOwn_update)
qed

lemma sumValues_foldl:
  "sumValues acc = Some s \<Longrightarrow> \<forall>tx \<in> set xs. inherited (projectNameOf tx) = None \<Longrightarrow>
   sumValues (foldl addProjectXp acc xs) = Some (s + sum_list (map t_amount xs))"
proof (induction xs arbitrary: acc s)
  case Nil
  then show ?case by simp
next
  case (Cons x xs)
  from Cons.prems have "sumValues (addProjectXp acc x) = Some (s + t_amount x)"
    by (simp add: sumValues_addProjectXp)
  from Cons.IH [OF this] Cons.prems(2) show ?case by (simp add: add.assoc)
qed

text \<open>
  As long as no project is named like a property of \<open>Object.prototype\<close>, the values of
  the mapping are numbers and add up to the XP of the project records.
\<close>

lemma xpByProject_sum:
  assumes "\<forall>tx \<in> set ts. isProjectXp tx \<longrightarrow> inherited (projectNameOf tx) = None"
  shows "sumValues (calculateXpByProject (Arr ts)) =
         Some (sum_list (map t_amount (filter isProjectXp ts)))"
  using assms sumValues_foldl [of "[]" 0 "filter isProjectXp ts"]
  by (simp add: calculateXpByProject_def)

text \<open>Under the same condition the last point of the series carries that sum.\<close>

lemma last_point_is_project_total:
  assumes "\<forall>tx \<in> set ts. isProjectXp tx \<longrightarrow> inherited (projectNameOf tx) = None"
    and "filter isProjectXp ts \<noteq> []"
  shows "Some (totalXp (last (calculateXpProgress h (Arr ts)))) =
         sumValues (calculateXpByProject (Arr ts))"
proof -
  have "xpTransactions h ts \<noteq> []"
    using assms(2) length_array_sort [of "byCreatedAt h" "filter isProjectXp ts"]
    by (metis length_0_conv xpTransactions_def)
  then have "totalXp (last (calculateXpProgress h (Arr ts))) =
      sum_list (map t_amount (xpTransactions h ts))"
    by (simp add: calculateXpProgress_def last_accumulate)
  also have "\<dots> = sum_list (map t_amount (filter isProjectXp ts))"
    by (simp add: xpTransactions_def sum_list_array_sort)
  finally show ?thesis
    using xpByProject_sum [OF assms(1)] by simp
qed

text \<open>
  C2 at a project named \<open>constructor\<close>: the accumulator \<open>{}\<close> inherits a property of
  that name, a function, so \<open>(acc[name] || 0) + amount\<close> concatenates strings. The
  mapping holds a string for the project, not its XP of \<open>5\<close>, and its values have no sum.
\<close>

theorem calculateXpByProject_prototype_key:
  "calculateXpByProject (Arr [projectXp ''constructor'' 5 ''2024-01-01'']) =
     [(''constructor'', Str ''function Object() { [native code] }5'')] \<and>
   sumValues (calculateXpByProject (Arr [projectXp ''constructor'' 5 ''2024-01-01''])) = None \<and>
   sum_list (map t_amount (filter isProjectXp [projectXp ''constructor'' 5 ''2024-01-01''])) = 5"
  by code_simp

text \<open>
  C10 at a project named \<open>__proto__\<close>: the series ends at \<open>5\<close>, while the assignment
  \<open>acc['__proto__'] = ...\<close> creates no property, so the mapping is empty and its values
  add up to \<open>0\<close>.
\<close>

theorem last_point_differs_from_project_total:
  "totalXp (last (calculateXpProgress hostUS (Arr [projectXp ''__proto__'' 5 ''2024-01-01'']))) = 5 \<and>
   calculateXpByProject (Arr [projectXp ''__proto__'' 5 ''2024-01-01'']) = [] \<and>
   sumValues (calculateXpByProject (Arr [projectXp ''__proto__'' 5 ''2024-01-01''])) = Some 0"
  by code_simp

subsection \<open>Missing and empty input\<close>

text \<open>
  C6: on \<open>undefined\<close>, \<open>null\<close>, a value that is not an array, and the empty array,
  \<open>calculateXpByProject\<close> returns the empty mapping, \<open>calculateXpProgress\<close> the empty
  sequence and \<open>calculatePassFailCounts\<close> zero counts. The first three inputs leave by
  the guard at the top of each function, which reads no property of its argument.
\<close>

theorem transforms_on_missing_input:
  "calculateXpByProject Undefined = [] \<and> calculateXpByProject Null = [] \<and>
   calculateXpByProject NonArray = [] \<and> calculateXpByProject (Arr []) = [] \<and>
   calculateXpProgress h Undefined = [] \<and> calculateXpProgress h Null = [] \<and>
   calculateXpProgress h NonArray = [] \<and> calculateXpProgress h (Arr []) = [] \<and>
   calculatePassFailCounts Undefined = \<lparr>passed = 0, failed = 0, total = 0\<rparr> \<and>
   calculatePassFailCounts Null = \<lparr>passed = 0, failed = 0, total = 0\<rparr> \<and>
   calculatePassFailCounts NonArray = \<lparr>passed = 0, failed = 0, total = 0\<rparr> \<and>
   calculatePassFailCounts (Arr []) = \<lparr>passed = 0, failed = 0, total = 0\<rparr>"
  by (simp add: calculateXpByProject_def calculateXpProgress_def calculatePassFailCounts_def
      xpTransactions_def array_sort_def)

section \<open>Properties of the authenticated fetch\<close>

subsection \<open>What the helpers change\<close>

lemma displayErrorMessage_fields:
  "trace (displayErrorMessage m w) = trace w @ [DisplayError m]"
  "jwtToken (displayErrorMessage m w) = jwtToken w"
  "storageWorks (displayErrorMessage m w) = storageWorks w"
  "loginSection (displayErrorMessage m w) = loginSection w"
  "fixedHeaderContainer (displayErrorMessage m w) = fixedHeaderContainer w"
  "profileContentScrollArea (displayErrorMessage m w) = profileContentScrollArea w"
  by (simp_all add: displayErrorMessage_def emit_def Let_def split: option.split)

lemma emit_fields:
  "trace (emit e w) = trace w @ [e]"
  "jwtToken (emit e w) = jwtToken w"
  "storageWorks (emit e w) = storageWorks w"
  "loginSection (emit e w) = loginSection w"
  "fixedHeaderContainer (emit e w) = fixedHeaderContainer w"
  "profileContentScrollArea (emit e w) = profileContentScrollArea w"
  by (simp_all add: emit_def)

lemma logout_fields:
  assumes "storageWorks w"
  shows "trace (logout w) = trace w"
    and "jwtToken (logout w) = None"
    and "loginSection (logout w) = map_option (\<lambda>e. e\<lparr>el_display := ''flex''\<rparr>) (loginSection w)"
    and "fixedHeaderContainer (logout w) =
           map_option (\<lambda>e. e\<lparr>el_display := ''none'', el_content := []\<rparr>) (fixedHeaderContainer w)"
    and "profileContentScrollArea (logout w) =
           map_option (\<lambda>e. e\<lparr>el_display := ''none'', el_content := []\<rparr>)
             (profileContentScrollArea w)"
    and "map_option el_content (errorMessageDiv (logout w)) =
           map_option (\<lambda>_. []) (errorMessageDiv w)"
  using assms by (simp_all add: logout_def hideErrorMessage_def split: option.split)

lemma newEvents_append: "trace w' = trace w @ es \<Longrightarrow> newEvents w w' = es"
  by (simp add: newEvents_def)


subsection \<open>Missing token, rejected token\<close>



subsection \<open>Status 401\<close>

lemma unauthorized_result:
  assumes "storageWorks w" and "jwtToken w = Some token" and "token \<noteq> []"
    and "status = 401 \<or> status = 403"
  shows "fetchGraphQLData (Response status b) query w =
     (None, logout (displayErrorMessage SESSION_EXPIRED
                     (emit (Fetch GRAPHQL_ENDPOINT (''Bearer '' @ token) query) w)))"
proof -
  from assms(4) have "\<not> ok status" by (auto simp: ok_def)
  with assms show ?thesis by (auto simp: fetchGraphQLData_def Let_def)
qed

text \<open>
  C4, as stated, at a loaded page whose request is answered with status 401: the only
  message passed to \<open>displayErrorMessage\<close> is the session-expired one, never the
  invalid-credentials one (that one belongs to a failed login), and the message element
  ends up empty.
\<close>

theorem fetch_401_message_counterexample:
  "case fetchGraphQLData (Response 401 (Unreadable :: unit body)) ''query'' loadedWorld of
     (r, w') \<Rightarrow> displayed (trace w') = [SESSION_EXPIRED] \<and>
       INVALID_CREDENTIALS \<notin> set (displayed (trace w')) \<and>
       map_option el_content (errorMessageDiv w') = Some []"
  by code_simp

text \<open>
  C4, amended: when a data fetch receives HTTP 401, the session token is cleared, the
  login section is made visible, header and profile content are hidden and emptied, and
  the message passed to \<open>displayErrorMessage\<close> is the predefined session-expired
  string, which differs from the invalid-credentials string. (Each element is changed
  where the page has it.)
\<close>

theorem fetch_401_forces_logout:
  assumes "storageWorks w" and "jwtToken w = Some token" and "token \<noteq> []"
  shows "case fetchGraphQLData (Response 401 b) query w of
      (r, w') \<Rightarrow> r = None \<and> jwtToken w' = None \<and>
        map_option el_display (loginSection w') = map_option (\<lambda>_. ''flex'') (loginSection w) \<and>
        map_option (\<lambda>e. (el_display e, el_content e)) (fixedHeaderContainer w') =
          map_option (\<lambda>_. (''none'', [])) (fixedHeaderContainer w) \<and>
        map_option (\<lambda>e. (el_display e, el_content e)) (profileContentScrollArea w') =
          map_option (\<lambda>_. (''none'', [])) (profileContentScrollArea w) \<and>
        displayed (newEvents w w') = [SESSION_EXPIRED] \<and>
        SESSION_EXPIRED \<noteq> INVALID_CREDENTIALS"
proof -
  let ?w1 = "emit (Fetch GRAPHQL_ENDPOINT (''Bearer '' @ token) query) w"
  let ?w2 = "displayErrorMessage SESSION_EXPIRED ?w1"
  have eq: "fetchGraphQLData (Response 401 b) query w = (None, logout ?w2)"
    using assms by (simp add: unauthorized_result)
  have sw: "storageWorks ?w2"
    using assms(1) by (simp add: displayErrorMessage_fields emit_fields)
  have "trace (logout ?w2) = trace w @
      [Fetch GRAPHQL_ENDPOINT (''Bearer '' @ token) query, DisplayError SESSION_EXPIRED]"
    using logout_fields(1) [OF sw] by (simp add: displayErrorMessage_fields emit_fields)
  then have ev: "displayed (newEvents w (logout ?w2)) = [SESSION_EXPIRED]"
    by (simp add: newEvents_append)
  have login: "map_option el_display (loginSection (logout ?w2)) =
      map_option (\<lambda>_. ''flex'') (loginSection w)"
    using logout_fields(3) [OF sw]
    by (simp add: displayErrorMessage_fields emit_fields option.map_comp comp_def)
  have header: "map_option (\<lambda>e. (el_display e, el_content e)) (fixedHeaderContainer (logout ?w2)) =
      map_option (\<lambda>_. (''none'', [])) (fixedHeaderContainer w)"
    using logout_fields(4) [OF sw]
    by (simp add: displayErrorMessage_fields emit_fields option.map_comp comp_def)
  have profile: "map_option (\<lambda>e. (el_display e, el_content e))
        (profileContentScrollArea (logout ?w2)) =
      map_option (\<lambda>_. (''none'', [])) (profileContentScrollArea w)"
    using logout_fields(5) [OF sw]
    by (simp add: displayErrorMessage_fields emit_fields option.map_comp comp_def)
  have ne: "SESSION_EXPIRED \<noteq> INVALID_CREDENTIALS"
    by (simp add: SESSION_EXPIRED_def INVALID_CREDENTIALS_def)
  from ev login header profile ne logout_fields(2) [OF sw] show ?thesis
    by (simp add: eq)
qed

text \<open>C4, amended, at the loaded page.\<close>

theorem fetch_401_forces_logout_witness:
  "storageWorks loadedWorld \<and> jwtToken loadedWorld = Some ''header.payload.signature'' \<and>
   (case fetchGraphQLData (Response 401 (Unreadable :: unit body)) ''query'' loadedWorld of
      (r, w') \<Rightarrow> r = None \<and> jwtToken w' = None \<and>
        map_option el_display (loginSection w') = Some ''flex'' \<and>
        map_option (\<lambda>e. (el_display e, el_content e)) (fixedHeaderContainer w') =
          Some (''none'', []) \<and>
        map_option (\<lambda>e. (el_display e, el_content e)) (profileContentScrollArea w') =
          Some (''none'', []) \<and>
        displayed (newEvents loadedWorld w') = [SESSION_EXPIRED])"
proof -
  have a: "storageWorks loadedWorld"
    and b: "jwtToken loadedWorld = Some ''header.payload.signature''"
    and c: "loginSection loadedWorld \<noteq> None" "fixedHeaderContainer loadedWorld \<noteq> None"
      "profileContentScrollArea loadedWorld \<noteq> None"
    by (simp_all add: loadedWorld_def)
  from fetch_401_forces_logout [OF a b, of "Unreadable :: unit body" "''query''"] c
  have "case fetchGraphQLData (Response 401 (Unreadable :: unit body)) ''query'' loadedWorld of
      (r, w') \<Rightarrow> r = None \<and> jwtToken w' = None \<and>
        map_option el_display (loginSection w') = Some ''flex'' \<and>
        map_option (\<lambda>e. (el_display e, el_content e)) (fixedHeaderContainer w') =
          Some (''none'', []) \<and>
        map_option (\<lambda>e. (el_display e, el_content e)) (profileContentScrollArea w') =
          Some (''none'', []) \<and>
        displayed (newEvents loadedWorld w') = [SESSION_EXPIRED]"
    by (auto simp: case_prod_beta)
  with a b show ?thesis by blast
qed

subsection \<open>A response that carries errors\<close>

text \<open>
  C5, as stated, at the loaded page: for an error with code \<open>invalid-jwt\<close> the message
  is the invalid-token one, whereas status 401 gives the session-expired one; and for two
  errors without that code the message is the fixed data-fetch text, whatever their
  messages are (they go to \<open>console.error\<close> only).
\<close>

theorem response_errors_counterexample:
  "displayed (trace (snd (fetchGraphQLData
      (Response 200 (Json (Some [invalidJwtError]) ())) ''query'' loadedWorld))) = [JWT_ERROR] \<and>
   displayed (trace (snd (fetchGraphQLData
      (Response 401 (Json None ())) ''query'' loadedWorld))) = [SESSION_EXPIRED] \<and>
   JWT_ERROR \<noteq> SESSION_EXPIRED \<and>
   map err_message otherErrors = [''field not found'', ''timeout''] \<and>
   displayed (trace (snd (fetchGraphQLData
      (Response 200 (Json (Some otherErrors) ())) ''query'' loadedWorld))) = [DATA_FETCH_ERROR]"
  by code_simp

text \<open>
  C5, amended: when the response is successful and its payload carries an error list,
  exactly one request was issued and the result is \<open>null\<close>; if some error has the code
  \<open>invalid-jwt\<close>, \<open>displayErrorMessage\<close> is called with the predefined invalid-token
  message and the session is cleared; if none has, it is called with the predefined
  data-fetch-error message, the token stays stored and login, header and profile are
  left as they were.
\<close>

theorem fetchGraphQLData_response_errors:
  assumes "storageWorks w" and "jwtToken w = Some token" and "token \<noteq> []" and "ok status"
  shows "case fetchGraphQLData (Response status (Json (Some errs) d)) query w of
      (r, w') \<Rightarrow> r = None \<and>
        requests (newEvents w w') = [(GRAPHQL_ENDPOINT, ''Bearer '' @ token, query)] \<and>
        (if \<exists>e \<in> set errs. isInvalidJWT e
         then displayed (newEvents w w') = [JWT_ERROR] \<and> jwtToken w' = None
         else displayed (newEvents w w') = [DATA_FETCH_ERROR] \<and> jwtToken w' = Some token \<and>
           loginSection w' = loginSection w \<and>
           fixedHeaderContainer w' = fixedHeaderContainer w \<and>
           profileContentScrollArea w' = profileContentScrollArea w)"
proof -
  let ?w1 = "emit (Fetch GRAPHQL_ENDPOINT (''Bearer '' @ token) query) w"
  let ?w2 = "emit (ConsoleError ''GraphQL errors:'') ?w1"
  show ?thesis
  proof (cases "\<exists>e \<in> set errs. isInvalidJWT e")
    case True
    let ?w3 = "displayErrorMessage JWT_ERROR ?w2"
    from True assms have eq:
      "fetchGraphQLData (Response status (Json (Some errs) d)) query w = (None, logout ?w3)"
      by (simp add: fetchGraphQLData_def Let_def list_ex_iff)
    have sw: "storageWorks ?w3"
      using assms(1) by (simp add: displayErrorMessage_fields emit_fields)
    have "trace (logout ?w3) = trace w @
        [Fetch GRAPHQL_ENDPOINT (''Bearer '' @ token) query,
         ConsoleError ''GraphQL errors:'', DisplayError JWT_ERROR]"
      using logout_fields(1) [OF sw] by (simp add: displayErrorMessage_fields emit_fields)
    then have "newEvents w (logout ?w3) =
        [Fetch GRAPHQL_ENDPOINT (''Bearer '' @ token) query,
         ConsoleError ''GraphQL errors:'', DisplayError JWT_ERROR]"
      by (rule newEvents_append)
    with True logout_fields(2) [OF sw] show ?thesis
      by (simp add: eq)
  next
    case False
    let ?w3 = "displayErrorMessage DATA_FETCH_ERROR ?w2"
    from False assms have eq:
      "fetchGraphQLData (Response status (Json (Some errs) d)) query w = (None, ?w3)"
      by (simp add: fetchGraphQLData_def Let_def list_ex_iff)
    have "trace ?w3 = trace w @
        [Fetch GRAPHQL_ENDPOINT (''Bearer '' @ token) query,
         ConsoleError ''GraphQL errors:'', DisplayError DATA_FETCH_ERROR]"
      by (simp add: displayErrorMessage_fields emit_fields)
    then have "newEvents w ?w3 =
        [Fetch GRAPHQL_ENDPOINT (''Bearer '' @ token) query,
         ConsoleError ''GraphQL errors:'', DisplayError DATA_FETCH_ERROR]"
      by (rule newEvents_append)
    with False assms(2) show ?thesis
      by (simp add: eq displayErrorMessage_fields emit_fields)
  qed
qed

text \<open>C5, amended, at the loaded page, once for each kind of error list.\<close>

theorem fetchGraphQLData_response_errors_witness:
  "storageWorks loadedWorld \<and> jwtToken loadedWorld = Some ''header.payload.signature'' \<and>
   ok 200 \<and> list_ex isInvalidJWT [invalidJwtError] \<and> \<not> list_ex isInvalidJWT otherErrors \<and>
   (case fetchGraphQLData (Response 200 (Json (Some [invalidJwtError]) ())) ''query'' loadedWorld of
      (r, w') \<Rightarrow> r = None \<and> displayed (newEvents loadedWorld w') = [JWT_ERROR] \<and>
        jwtToken w' = None) \<and>
   (case fetchGraphQLData (Response 200 (Json (Some otherErrors) ())) ''query'' loadedWorld of
      (r, w') \<Rightarrow> r = None \<and> displayed (newEvents loadedWorld w') = [DATA_FETCH_ERROR] \<and>
        jwtToken w' = Some ''header.payload.signature'')"
proof -
  have a: "storageWorks loadedWorld"
    and b: "jwtToken loadedWorld = Some ''header.payload.signature''"
    by (simp_all add: loadedWorld_def)
  have c: "ok 200" by (simp add: ok_def)
  have d: "list_ex isInvalidJWT [invalidJwtError]"
    by (simp add: isInvalidJWT_def invalidJwtError_def)
  have e: "\<not> list_ex isInvalidJWT otherErrors"
    by (simp add: isInvalidJWT_def otherErrors_def)
  from fetchGraphQLData_response_errors [OF a b _ c, where errs = "[invalidJwtError]" and d = "()" and query = "''query''"] d
  have 1: "case fetchGraphQLData (Response 200 (Json (Some [invalidJwtError]) ())) ''query''
        loadedWorld of
      (r, w') \<Rightarrow> r = None \<and> displayed (newEvents loadedWorld w') = [JWT_ERROR] \<and>
        jwtToken w' = None"
    by (auto simp: case_prod_beta list_ex_iff)
  from fetchGraphQLData_response_errors [OF a b _ c, where errs = otherErrors and d = "()" and query = "''query''"] e
  have 2: "case fetchGraphQLData (Response 200 (Json (Some otherErrors) ())) ''query''
        loadedWorld of
      (r, w') \<Rightarrow> r = None \<and> displayed (newEvents loadedWorld w') = [DATA_FETCH_ERROR] \<and>
        jwtToken w' = Some ''header.payload.signature''"
    by (auto simp: case_prod_beta list_ex_iff)
  from a b c d e 1 2 show ?thesis by blast
qed

section \<open>Properties of the chart renderers\<close>

subsection \<open>Sorting by a key\<close>

text \<open>
  Where the comparator is the order of a key, \<open>array_sort\<close> is the stable insertion sort
  \<open>sort_key\<close> of the library.
\<close>

lemma insortBy_insort_key:
  "(\<And>y. y \<in> set ys \<Longrightarrow> (c x y \<le> 0) = (key x \<le> key y)) \<Longrightarrow>
   insortBy c x ys = insort_key key x ys"
  by (induction ys) auto

lemma array_sort_sort_key:
  assumes "\<And>x y. x \<in> set xs \<Longrightarrow> y \<in> set xs \<Longrightarrow>
             (sortCompare comparefn x y \<le> 0) = (key x \<le> key y)"
  shows "array_sort comparefn xs = sort_key key xs"
  using assms
proof (induction xs)
  case Nil
  then show ?case by (simp add: array_sort_def)
next
  case (Cons a xs)
  have ih: "array_sort comparefn xs = sort_key key xs"
    using Cons.prems by (intro Cons.IH) auto
  have "insortBy (sortCompare comparefn) a (sort_key key xs) = insort_key key a (sort_key key xs)"
    using Cons.prems by (intro insortBy_insort_key) auto
  with ih show ?case
    by (simp add: array_sort_def sort_key_def)
qed

lemma insort_key_map:
  "insort_key f (g x) (map g ys) = map g (insort_key (\<lambda>y. f (g y)) x ys)"
  by (induction ys) auto

lemma sort_key_map: "sort_key f (map g xs) = map g (sort_key (\<lambda>y. f (g y)) xs)"
  by (induction xs) (simp_all add: sort_key_def insort_key_map)

lemma insort_key_agree:
  "f x = g x \<Longrightarrow> (\<And>y. y \<in> set ys \<Longrightarrow> f y = g y) \<Longrightarrow>
   insort_key f x ys = insort_key g x ys"
  by (induction ys) auto

lemma sort_key_agree:
  "(\<And>x. x \<in> set xs \<Longrightarrow> f x = g x) \<Longrightarrow> sort_key f xs = sort_key g xs"
proof (induction xs)
  case Nil
  then show ?case by simp
next
  case (Cons a xs)
  then have ih: "sort_key f xs = sort_key g xs" by auto
  have "insort_key f a (sort_key g xs) = insort_key g a (sort_key g xs)"
    using Cons.prems by (intro insort_key_agree) auto
  with ih show ?case by (simp add: sort_key_def)
qed

text \<open>The entries by descending XP, ties in the order of the object's keys.\<close>

lemma projects_sorted_entries:
  assumes "distinct (map fst d)"
  shows "projects d = map fst (sort_key (\<lambda>p. - snd p) d)"
proof -
  let ?key = "\<lambda>k. - the (map_of d k)"
  have look: "\<And>p. p \<in> set d \<Longrightarrow> map_of d (fst p) = Some (snd p)"
    using assms by (metis map_of_is_SomeI prod.collapse)
  have "array_sort (byXpDescending d) (map fst d) = sort_key ?key (map fst d)"
  proof (rule array_sort_sort_key)
    fix x y
    assume "x \<in> set (map fst d)" and "y \<in> set (map fst d)"
    then obtain p q where "p \<in> set d" "x = fst p" "q \<in> set d" "y = fst q"
      by auto
    with look show "(sortCompare (byXpDescending d) x y \<le> 0) = (?key x \<le> ?key y)"
      by (simp add: sortCompare_def byXpDescending_def)
  qed
  also have "\<dots> = map fst (sort_key (\<lambda>p. ?key (fst p)) d)"
    by (rule sort_key_map)
  also have "sort_key (\<lambda>p. ?key (fst p)) d = sort_key (\<lambda>p. - snd p) d"
    by (rule sort_key_agree) (simp add: look)
  finally show ?thesis by (simp add: projects_def)
qed

lemma displayData_top:
  assumes "distinct (map fst d)"
  shows "displayData d =
         map (\<lambda>p. \<lparr> b_name = fst p, b_xp = Some (snd p) \<rparr>) (take 10 (sort_key (\<lambda>p. - snd p) d))"
proof -
  let ?s = "sort_key (\<lambda>p. - snd p) d"
  have look: "\<And>p. p \<in> set (take 10 ?s) \<Longrightarrow> map_of d (fst p) = Some (snd p)"
  proof -
    fix p
    assume "p \<in> set (take 10 ?s)"
    then have "p \<in> set d"
      by (metis in_set_takeD set_sort)
    with assms show "map_of d (fst p) = Some (snd p)"
      by (metis map_of_is_SomeI prod.collapse)
  qed
  have "displayData d = map (\<lambda>p. \<lparr> b_name = fst p, b_xp = map_of d (fst p) \<rparr>) (take 10 ?s)"
    by (simp add: displayData_def displayProjects_def projects_sorted_entries [OF assms]
        take_map comp_def)
  also have "\<dots> = map (\<lambda>p. \<lparr> b_name = fst p, b_xp = Some (snd p) \<rparr>) (take 10 ?s)"
    by (rule map_cong) (simp_all add: look)
  finally show ?thesis .
qed

lemma sorted_descending:
  "sorted_wrt (\<lambda>p q. snd q \<le> (snd p :: int)) (sort_key (\<lambda>p. - snd p) d)"
proof -
  have "sorted (map (\<lambda>p. - snd p) (sort_key (\<lambda>p. - snd p) d))"
    by (rule sorted_sort_key)
  then show ?thesis
    by (simp add: sorted_map sorted_wrt_iff_nth_less)
qed

lemma sorted_wrt_take: "sorted_wrt P xs \<Longrightarrow> sorted_wrt P (take n xs)"
  by (metis append_take_drop_id sorted_wrt_append)

lemma rest_below_top:
  assumes "p \<in> set d - set (take n (sort_key (\<lambda>p. - snd p) d))"
    and "q \<in> set (take n (sort_key (\<lambda>p. - snd p) d))"
  shows "snd p \<le> (snd q :: int)"
proof -
  let ?s = "sort_key (\<lambda>p. - snd p) d"
  have "sorted_wrt (\<lambda>p q. snd q \<le> snd p) (take n ?s @ drop n ?s)"
    using sorted_descending [of d] by simp
  then have *: "\<forall>x \<in> set (take n ?s). \<forall>y \<in> set (drop n ?s). snd y \<le> snd x"
    unfolding sorted_wrt_append by blast
  have "set ?s = set (take n ?s) \<union> set (drop n ?s)"
    by (metis append_take_drop_id set_append)
  with assms(1) have "p \<in> set (drop n ?s)"
    by auto
  with * assms(2) show ?thesis by blast
qed

lemma strictly_descending:
  assumes "sorted_wrt (\<lambda>p q. snd q \<le> (snd p :: int)) xs" and "distinct (map snd xs)"
  shows "sorted_wrt (\<lambda>p q. snd q < snd p) xs"
  using assms
proof (induction xs)
  case Nil
  then show ?case by simp
next
  case (Cons x xs)
  have "snd q < snd x" if "q \<in> set xs" for q
  proof -
    from Cons.prems(1) that have "snd q \<le> snd x" by simp
    moreover from Cons.prems(2) have "snd x \<notin> snd ` set xs" by simp
    with that have "snd q \<noteq> snd x" by (metis imageI)
    ultimately show ?thesis by simp
  qed
  with Cons show ?case by simp
qed

lemma projects_nonempty: "d \<noteq> [] \<Longrightarrow> projects d \<noteq> []"
  using length_array_sort [of "byXpDescending d" "map fst d"]
  by (metis length_0_conv map_is_Nil_conv projects_def)

subsection \<open>The ten largest projects\<close>

text \<open>
  C8: for every non-empty mapping (each key once) the bar chart renderer draws the list
  \<open>tops\<close> of entries: the names under the bars and the value labels are those of
  \<open>tops\<close>, in its order; \<open>tops\<close> has at most ten entries, all of the mapping, in
  descending order of XP, and every entry left out has at most the XP of every entry
  drawn. Given fifteen projects with distinct sums, exactly ten are drawn, in strictly
  descending order, and each project left out has less XP than each one drawn.
\<close>

theorem bar_chart_top_ten:
  assumes "distinct (map fst d)" and "d \<noteq> []"
  shows "\<exists>tops.
     drawXpByProjectBarChart (Some c) (Param d) = (Returns, Some [Svg (barChart d)]) \<and>
     displayData d = map (\<lambda>p. \<lparr> b_name = fst p, b_xp = Some (snd p) \<rparr>) tops \<and>
     c_categories (barChart d) = map fst tops \<and>
     c_valueLabels (barChart d) = map (\<lambda>p. showInt (snd p)) tops \<and>
     length tops = min 10 (length d) \<and> set tops \<subseteq> set d \<and> distinct tops \<and>
     sorted_wrt (\<lambda>p q. snd q \<le> snd p) tops \<and>
     (\<forall>p \<in> set d - set tops. \<forall>q \<in> set tops. snd p \<le> snd q) \<and>
     (length d = 15 \<and> distinct (map snd d) \<longrightarrow>
        length tops = 10 \<and> sorted_wrt (\<lambda>p q. snd q < snd p) tops \<and>
        (\<forall>p \<in> set d - set tops. \<forall>q \<in> set tops. snd p < snd q))"
proof -
  let ?s = "sort_key (\<lambda>p. - snd p) d"
  let ?tops = "take 10 ?s"
  have draw: "drawXpByProjectBarChart (Some c) (Param d) = (Returns, Some [Svg (barChart d)])"
    using projects_nonempty [OF assms(2)]
    by (simp add: drawXpByProjectBarChart_def withDefault_def appendChild_def)
  have data: "displayData d = map (\<lambda>p. \<lparr> b_name = fst p, b_xp = Some (snd p) \<rparr>) ?tops"
    by (rule displayData_top [OF assms(1)])
  have cats: "c_categories (barChart d) = map fst ?tops"
    by (simp add: barChart_def displayProjects_def projects_sorted_entries [OF assms(1)] take_map)
  have labels: "c_valueLabels (barChart d) = map (\<lambda>p. showInt (snd p)) ?tops"
    by (simp add: barChart_def data showNumber_def comp_def)
  have len: "length ?tops = min 10 (length d)"
    by (simp add: min.commute)
  have sub: "set ?tops \<subseteq> set d"
    by (metis set_sort set_take_subset)
  have "distinct d"
    using assms(1) by (simp add: distinct_map)
  then have dist: "distinct ?tops"
    by (simp add: distinct_take)
  have desc: "sorted_wrt (\<lambda>p q. snd q \<le> snd p) ?tops"
    using sorted_descending [of d] by (rule sorted_wrt_take)
  have rest: "\<forall>p \<in> set d - set ?tops. \<forall>q \<in> set ?tops. snd p \<le> snd q"
    using rest_below_top [of _ d 10] by blast
  have strict: "length ?tops = 10 \<and> sorted_wrt (\<lambda>p q. snd q < snd p) ?tops \<and>
      (\<forall>p \<in> set d - set ?tops. \<forall>q \<in> set ?tops. snd p < snd q)"
    if n: "length d = 15" and v: "distinct (map snd d)"
  proof (intro conjI ballI)
    show "length ?tops = 10" using n by simp
    have "distinct (map snd ?s)"
      using v by (metis distinct_map distinct_sort set_sort)
    then have "distinct (map snd ?tops)"
      by (metis distinct_take take_map)
    with desc show "sorted_wrt (\<lambda>p q. snd q < snd p) ?tops"
      by (rule strictly_descending)
  next
    fix p q
    assume p: "p \<in> set d - set ?tops" and q: "q \<in> set ?tops"
    from rest p q have le: "snd p \<le> snd q" by blast
    from p q sub have "p \<in> set d" "q \<in> set d" "p \<noteq> q" by auto
    with v have "snd p \<noteq> snd q"
      by (metis distinct_map inj_onD)
    with le show "snd p < snd q" by simp
  qed
  from draw data cats labels len sub dist desc rest strict show ?thesis
    by blast
qed

text \<open>
  C8 at the fifteen projects: the ten names drawn, from 1500 down to 600.
\<close>

theorem bar_chart_top_ten_witness:
  "distinct (map fst fifteenProjects) \<and> length fifteenProjects = 15 \<and>
   distinct (map snd fifteenProjects) \<and>
   drawXpByProjectBarChart (Some usedContainer) (Param fifteenProjects) =
     (Returns, Some [Svg (barChart fifteenProjects)]) \<and>
   c_categories (barChart fifteenProjects) =
     [''p02'', ''p07'', ''p11'', ''p04'', ''p09'', ''p13'', ''p06'', ''p14'', ''p01'', ''p10''] \<and>
   c_valueLabels (barChart fifteenProjects) =
     [''1500'', ''1400'', ''1300'', ''1200'', ''1100'', ''1000'', ''900'', ''800'', ''700'', ''600''] \<and>
   (\<exists>tops. c_categories (barChart fifteenProjects) = map fst tops \<and> length tops = 10 \<and>
      sorted_wrt (\<lambda>p q. snd q < snd p) tops \<and>
      (\<forall>p \<in> set fifteenProjects - set tops. \<forall>q \<in> set tops. snd p < snd q))"
proof -
  have k: "distinct (map fst fifteenProjects)"
    by (simp add: fifteenProjects_def)
  have n: "length fifteenProjects = 15" and ne: "fifteenProjects \<noteq> []"
    by (simp_all add: fifteenProjects_def)
  have v: "distinct (map snd fifteenProjects)"
    by (simp add: fifteenProjects_def)
  have cats: "c_categories (barChart fifteenProjects) =
     [''p02'', ''p07'', ''p11'', ''p04'', ''p09'', ''p13'', ''p06'', ''p14'', ''p01'', ''p10'']"
    by code_simp
  have labels: "c_valueLabels (barChart fifteenProjects) =
     [''1500'', ''1400'', ''1300'', ''1200'', ''1100'', ''1000'', ''900'', ''800'', ''700'', ''600'']"
    by code_simp
  from bar_chart_top_ten [OF k ne, of usedContainer] n v
  obtain tops where
    "drawXpByProjectBarChart (Some usedContainer) (Param fifteenProjects) =
       (Returns, Some [Svg (barChart fifteenProjects)])"
    "c_categories (barChart fifteenProjects) = map fst tops" "length tops = 10"
    "sorted_wrt (\<lambda>p q. snd q < snd p) tops"
    "\<forall>p \<in> set fifteenProjects - set tops. \<forall>q \<in> set tops. snd p < snd q"
    by blast
  with k n v cats labels show ?thesis by blast
qed

subsection \<open>Rendering twice, rendering nothing\<close>

text \<open>
  Each renderer empties the container before anything else, so a second call with the
  same data ends where the first did. On \<open>undefined\<close> and on empty data each renderer
  leaves the message \<open>NO_DATA\<close> in the container; the line and radar renderers also on
  \<open>null\<close>.
\<close>

lemma textContent_NO_DATA: "textContent NO_DATA = [TextNode NO_DATA]"
  by (simp add: textContent_def NO_DATA_def)

lemma drawSkillsRadarChart_idempotent:
  "drawSkillsRadarChart (snd (drawSkillsRadarChart container data)) data =
   drawSkillsRadarChart container data"
  by (cases container; cases data)
    (simp_all add: drawSkillsRadarChart_def withDefault_def appendChild_def Let_def)

lemma drawXpProgressLineChart_idempotent:
  "drawXpProgressLineChart (snd (drawXpProgressLineChart container data)) data =
   drawXpProgressLineChart container data"
  by (cases container; cases data)
    (simp_all add: drawXpProgressLineChart_def withDefault_def appendChild_def
      split: option.split)

lemma drawXpByProjectBarChart_idempotent:
  "drawXpByProjectBarChart (snd (drawXpByProjectBarChart container data)) data =
   drawXpByProjectBarChart container data"
  by (cases container; cases data)
    (simp_all add: drawXpByProjectBarChart_def withDefault_def appendChild_def)

lemma renderers_no_data:
  "drawSkillsRadarChart (Some c) ParamUndefined = (Returns, Some [TextNode NO_DATA])"
  "drawSkillsRadarChart (Some c) ParamNull = (Returns, Some [TextNode NO_DATA])"
  "drawSkillsRadarChart (Some c) (Param []) = (Returns, Some [TextNode NO_DATA])"
  "drawXpProgressLineChart (Some c) ParamUndefined = (Returns, Some [TextNode NO_DATA])"
  "drawXpProgressLineChart (Some c) ParamNull = (Returns, Some [TextNode NO_DATA])"
  "drawXpProgressLineChart (Some c) (Param []) = (Returns, Some [TextNode NO_DATA])"
  "drawXpByProjectBarChart (Some c) ParamUndefined = (Returns, Some [TextNode NO_DATA])"
  "drawXpByProjectBarChart (Some c) (Param []) = (Returns, Some [TextNode NO_DATA])"
  by (simp_all add: drawSkillsRadarChart_def drawXpProgressLineChart_def
      drawXpByProjectBarChart_def withDefault_def textContent_NO_DATA projects_def array_sort_def)

text \<open>
  C9 at the bar chart renderer with \<open>null\<close> for its data: the default value \<open>{}\<close> is
  not used for \<open>null\<close>, \<open>Object.keys(null)\<close> throws, and the emptied container stays
  without a message. The line and radar renderers test \<open>!data\<close> and show the message.
\<close>

theorem bar_chart_null_data:
  "drawXpByProjectBarChart (Some usedContainer) ParamNull = (Throws ''TypeError'', Some []) \<and>
   drawXpProgressLineChart (Some usedContainer) ParamNull = (Returns, Some [TextNode NO_DATA]) \<and>
   drawSkillsRadarChart (Some usedContainer) ParamNull = (Returns, Some [TextNode NO_DATA]) \<and>
   drawXpByProjectBarChart (Some usedContainer) ParamUndefined =
     (Returns, Some [TextNode NO_DATA])"
  by (simp add: drawSkillsRadarChart_def drawXpProgressLineChart_def
      drawXpByProjectBarChart_def withDefault_def textContent_NO_DATA projects_def array_sort_def)

text \<open>
  A series of exactly one point makes the line chart renderer throw as well: the index
  of its only date label is \<open>0 / 0\<close>.
\<close>

lemma line_chart_single_point:
  "drawXpProgressLineChart (Some c) (Param [p]) = (Throws ''TypeError'', Some [])"
  by (simp add: drawXpProgressLineChart_def withDefault_def dateLabels_def labelIndex_def
      dateLabel_def)

section \<open>What the transforms depend on\<close>

subsection \<open>The store\<close>

text \<open>
  The only array that is changed in place is the one \<open>filter\<close> has just created;
  with the store written out, each transform returns what the function of the
  argument's content returns.
\<close>

lemma nthOpt_new: "nthOpt (s @ [x]) (length s) = Some x"
  by (simp add: nthOpt_def)

lemma sort_in_place_new:
  "sort_in_place comparefn (length s) (s @ [xs]) = s @ [array_sort comparefn xs]"
  by (simp add: sort_in_place_def nthOpt_new)

lemma calculateXpProgress_store_eq:
  "calculateXpProgress_store h v s =
     (case argOf s v of
        Arr ts \<Rightarrow> (calculateXpProgress h (Arr ts), s @ [xpTransactions h ts])
      | _ \<Rightarrow> (calculateXpProgress h (argOf s v), s))"
  by (simp add: calculateXpProgress_store_def calculateXpProgress_def array_filter_def
      sort_in_place_new nthOpt_new xpTransactions_def split: js_arg.split)

lemma calculateXpByProject_store_eq:
  "calculateXpByProject_store v s =
     (case argOf s v of
        Arr ts \<Rightarrow> (calculateXpByProject (Arr ts), s @ [filter isProjectXp ts])
      | _ \<Rightarrow> (calculateXpByProject (argOf s v), s))"
  by (simp add: calculateXpByProject_store_def calculateXpByProject_def array_filter_def
      nthOpt_new split: js_arg.split)

lemma calculatePassFailCounts_store_eq:
  "calculatePassFailCounts_store v s =
     (case argOf s v of
        Arr rs \<Rightarrow> (calculatePassFailCounts (Arr rs), s @ [filter isTested rs])
      | _ \<Rightarrow> (calculatePassFailCounts (argOf s v), s))"
  by (simp add: calculatePassFailCounts_store_def calculatePassFailCounts_def array_filter_def
      nthOpt_new split: js_arg.split)

lemma store_kept:
  "take (length s) (snd (calculateXpProgress_store h v s)) = s"
  "take (length s) (snd (calculateXpByProject_store v s)) = s"
  "take (length rs) (snd (calculatePassFailCounts_store v rs)) = rs"
  by (simp_all add: calculateXpProgress_store_eq calculateXpByProject_store_eq
      calculatePassFailCounts_store_eq split: js_arg.split)

lemma store_results:
  "fst (calculateXpProgress_store h v s) = calculateXpProgress h (argOf s v)"
  "fst (calculateXpByProject_store v s) = calculateXpByProject (argOf s v)"
  "fst (calculatePassFailCounts_store v rs) = calculatePassFailCounts (argOf rs v)"
  by (simp_all add: calculateXpProgress_store_eq calculateXpByProject_store_eq
      calculatePassFailCounts_store_eq split: js_arg.split)

subsection \<open>The host\<close>

text \<open>
  Where every record that counts has a date the host can parse, the comparator is the
  order of the parsed times, the sort is the stable sort by time, and the output is the
  series as the specification words it.
\<close>

lemma xpTransactions_by_time:
  assumes "\<forall>t \<in> set ts. isProjectXp t \<longrightarrow> parseDate h (t_createdAt t) \<noteq> None"
  shows "xpTransactions h ts = sort_key (timeOf h) (filter isProjectXp ts)"
  unfolding xpTransactions_def
proof (rule array_sort_sort_key)
  fix x y
  assume "x \<in> set (filter isProjectXp ts)" and "y \<in> set (filter isProjectXp ts)"
  with assms have "parseDate h (t_createdAt x) \<noteq> None" and "parseDate h (t_createdAt y) \<noteq> None"
    by simp_all
  then obtain a b where "parseDate h (t_createdAt x) = Some a"
    and "parseDate h (t_createdAt y) = Some b"
    by blast
  then show "(sortCompare (byCreatedAt h) x y \<le> 0) = (timeOf h x \<le> timeOf h y)"
    by (simp add: sortCompare_def byCreatedAt_def timeOf_def)
qed

lemma accumulate_nth:
  "k < length xs \<Longrightarrow>
   accumulate h c xs ! k =
     \<lparr> date = toLocaleDateString h (parseDate h (t_createdAt (xs ! k))),
       totalXp = c + sum_list (map t_amount (take (Suc k) xs)),
       totalXpMB = toFixed2 (c + sum_list (map t_amount (take (Suc k) xs))) 1000000 \<rparr>"
proof (induction xs arbitrary: c k)
  case Nil
  then show ?case by simp
next
  case (Cons x xs)
  show ?case
  proof (cases k)
    case 0
    then show ?thesis by (simp add: Let_def)
  next
    case (Suc j)
    with Cons.prems have "j < length xs" by simp
    from Cons.IH [OF this, of "c + t_amount x"] Suc show ?thesis
      by (simp add: Let_def add.assoc)
  qed
qed

lemma accumulate_series:
  "accumulate h 0 xs = map (seriesPoint h xs) [0..<length xs]"
  by (rule nth_equalityI) (simp_all add: length_accumulate accumulate_nth seriesPoint_def Let_def)

lemma xp_progress_by_time:
  assumes "\<forall>t \<in> set ts. isProjectXp t \<longrightarrow> parseDate h (t_createdAt t) \<noteq> None"
  shows "calculateXpProgress h (Arr ts) = cumulativeXpSeries h ts"
  by (simp add: calculateXpProgress_def cumulativeXpSeries_def xpTransactions_by_time [OF assms]
      accumulate_series Let_def)

lemma seriesPoint_totals:
  "totalXp (seriesPoint h xs k) = sum_list (map t_amount (take (Suc k) xs))"
  "totalXpMB (seriesPoint h xs k) = toFixed2 (sum_list (map t_amount (take (Suc k) xs))) 1000000"
  by (simp_all add: seriesPoint_def Let_def)

lemma timeOf_parse: "parseDate h1 = parseDate h2 \<Longrightarrow> timeOf h1 = timeOf h2"
  by (intro ext) (simp add: timeOf_def)

text \<open>
  C7, as stated, at one record dated 2 January 2024: a browser with locale \<open>en-US\<close>
  prints the date as \<open>1/2/2024\<close>, one with \<open>en-GB\<close> as \<open>02/01/2024\<close>. The input is
  the same and the outputs differ: \<open>toLocaleDateString()\<close> is called without a locale
  or a time zone, so the host's defaults decide.
\<close>

theorem date_string_depends_on_host:
  "map date (calculateXpProgress hostUS (Arr [projectXp ''P1'' 5 ''2024-01-02''])) = [''1/2/2024''] \<and>
   map date (calculateXpProgress hostGB (Arr [projectXp ''P1'' 5 ''2024-01-02''])) = [''02/01/2024''] \<and>
   calculateXpProgress hostUS (Arr [projectXp ''P1'' 5 ''2024-01-02'']) \<noteq>
   calculateXpProgress hostGB (Arr [projectXp ''P1'' 5 ''2024-01-02''])"
proof -
  have us: "map date (calculateXpProgress hostUS (Arr [projectXp ''P1'' 5 ''2024-01-02''])) =
      [''1/2/2024'']"
    by code_simp
  have gb: "map date (calculateXpProgress hostGB (Arr [projectXp ''P1'' 5 ''2024-01-02''])) =
      [''02/01/2024'']"
    by code_simp
  have "calculateXpProgress hostUS (Arr [projectXp ''P1'' 5 ''2024-01-02'']) \<noteq>
      calculateXpProgress hostGB (Arr [projectXp ''P1'' 5 ''2024-01-02''])"
  proof
    assume "calculateXpProgress hostUS (Arr [projectXp ''P1'' 5 ''2024-01-02'']) =
      calculateXpProgress hostGB (Arr [projectXp ''P1'' 5 ''2024-01-02''])"
    then have "map date (calculateXpProgress hostUS (Arr [projectXp ''P1'' 5 ''2024-01-02''])) =
      map date (calculateXpProgress hostGB (Arr [projectXp ''P1'' 5 ''2024-01-02'']))"
      by (rule arg_cong)
    then have "[''1/2/2024''] = [''02/01/2024'']"
      by (simp only: us gb)
    then show False by simp
  qed
  with us gb show ?thesis by (intro conjI)
qed

text \<open>
  C7, amended: every series transform leaves the arrays it finds as they were, its
  input included, and returns a result that depends on the store through the content of
  its argument only. \<open>calculateXpProgress\<close> depends on the host's date handling as
  well: for a transaction list whose records with type \<open>xp\<close> and object type
  \<open>project\<close> all carry a \<open>createdAt\<close> the host can parse, its output is the running
  sums of those records in ascending order of parsed time (equal times in input order),
  each point with the host's \<open>toLocaleDateString()\<close> of its record's \<open>createdAt\<close>; on
  such a list, hosts that parse dates alike give the same \<open>totalXp\<close> and \<open>totalXpMB\<close>
  sequences.
\<close>

theorem transforms_depend_on_input_and_host:
  "take (length s) (snd (calculateXpProgress_store h v s)) = s \<and>
   take (length s) (snd (calculateXpByProject_store v s)) = s \<and>
   take (length rs) (snd (calculatePassFailCounts_store v rs)) = rs \<and>
   fst (calculateXpProgress_store h v s) = calculateXpProgress h (argOf s v) \<and>
   fst (calculateXpByProject_store v s) = calculateXpByProject (argOf s v) \<and>
   fst (calculatePassFailCounts_store v rs) = calculatePassFailCounts (argOf rs v) \<and>
   ((\<forall>t \<in> set ts. isProjectXp t \<longrightarrow> parseDate h (t_createdAt t) \<noteq> None) \<longrightarrow>
      calculateXpProgress h (Arr ts) = cumulativeXpSeries h ts) \<and>
   ((\<forall>t \<in> set ts. isProjectXp t \<longrightarrow> parseDate h (t_createdAt t) \<noteq> None) \<and>
    parseDate h' = parseDate h \<longrightarrow>
      map totalXp (calculateXpProgress h' (Arr ts)) = map totalXp (calculateXpProgress h (Arr ts)) \<and>
      map totalXpMB (calculateXpProgress h' (Arr ts)) =
        map totalXpMB (calculateXpProgress h (Arr ts)))"
proof (intro conjI impI)
  assume a: "(\<forall>t \<in> set ts. isProjectXp t \<longrightarrow> parseDate h (t_createdAt t) \<noteq> None) \<and>
    parseDate h' = parseDate h"
  then have p: "\<forall>t \<in> set ts. isProjectXp t \<longrightarrow> parseDate h (t_createdAt t) \<noteq> None"
    and p': "\<forall>t \<in> set ts. isProjectXp t \<longrightarrow> parseDate h' (t_createdAt t) \<noteq> None"
    and q: "parseDate h' = parseDate h"
    by simp_all
  have t: "timeOf h' = timeOf h"
    using q by (rule timeOf_parse)
  have s: "calculateXpProgress h (Arr ts) = cumulativeXpSeries h ts"
    and s': "calculateXpProgress h' (Arr ts) = cumulativeXpSeries h' ts"
    using p p' by (simp_all add: xp_progress_by_time)
  show "map totalXp (calculateXpProgress h' (Arr ts)) = map totalXp (calculateXpProgress h (Arr ts))"
    by (simp add: s s' cumulativeXpSeries_def t seriesPoint_totals Let_def)
  show "map totalXpMB (calculateXpProgress h' (Arr ts)) =
      map totalXpMB (calculateXpProgress h (Arr ts))"
    by (simp add: s s' cumulativeXpSeries_def t seriesPoint_totals Let_def)
next
  assume "\<forall>t \<in> set ts. isProjectXp t \<longrightarrow> parseDate h (t_createdAt t) \<noteq> None"
  then show "calculateXpProgress h (Arr ts) = cumulativeXpSeries h ts"
    by (rule xp_progress_by_time)
qed (simp_all only: store_kept store_results)

text \<open>
  C7, amended, at the sample stores and the two hosts, which parse alike and print
  differently.
\<close>

theorem transforms_depend_on_input_and_host_witness:
  "map (\<lambda>t. parseDate hostUS (t_createdAt t)) (filter isProjectXp sampleTransactions) =
     [Some 1704153600000, Some 1704067200000] \<and>
   parseDate hostGB = parseDate hostUS \<and>
   argOf sampleStore (VArray 0) = Arr sampleTransactions \<and>
   take 2 (snd (calculateXpProgress_store hostUS (VArray 0) sampleStore)) = sampleStore \<and>
   take 2 (snd (calculateXpByProject_store (VArray 0) sampleStore)) = sampleStore \<and>
   take 1 (snd (calculatePassFailCounts_store (VArray 0) sampleResults)) = sampleResults \<and>
   fst (calculateXpProgress_store hostUS (VArray 0) sampleStore) =
     calculateXpProgress hostUS (Arr sampleTransactions) \<and>
   fst (calculateXpByProject_store (VArray 0) sampleStore) =
     [(''P2'', Num 2000000), (''P1'', Num 1000000)] \<and>
   fst (calculatePassFailCounts_store (VArray 0) sampleResults) =
     \<lparr>passed = 1, failed = 1, total = 3\<rparr> \<and>
   calculateXpProgress hostUS (Arr sampleTransactions) =
     cumulativeXpSeries hostUS sampleTransactions \<and>
   map totalXp (calculateXpProgress hostGB (Arr sampleTransactions)) = [1000000, 3000000] \<and>
   map totalXpMB (calculateXpProgress hostGB (Arr sampleTransactions)) =
     map totalXpMB (calculateXpProgress hostUS (Arr sampleTransactions))"
proof -
  have parsed: "map (\<lambda>t. parseDate hostUS (t_createdAt t)) (filter isProjectXp sampleTransactions) =
      [Some 1704153600000, Some 1704067200000]"
    by code_simp
  have p: "\<forall>t \<in> set sampleTransactions.
      isProjectXp t \<longrightarrow> parseDate hostUS (t_createdAt t) \<noteq> None"
    by code_simp
  have q: "parseDate hostGB = parseDate hostUS"
    by (simp add: hostUS_def hostGB_def)
  have arg: "argOf sampleStore (VArray 0) = Arr sampleTransactions"
    by (simp add: argOf_def sampleStore_def nthOpt_def)
  have args: "argOf sampleResults (VArray 0) = Arr (hd sampleResults)"
    by (simp add: argOf_def sampleResults_def nthOpt_def)
  have len: "length sampleStore = 2" "length sampleResults = 1"
    by (simp_all add: sampleStore_def sampleResults_def)
  have byProject: "calculateXpByProject (Arr sampleTransactions) =
      [(''P2'', Num 2000000), (''P1'', Num 1000000)]"
    by code_simp
  have counted: "calculatePassFailCounts (Arr (hd sampleResults)) =
      \<lparr>passed = 1, failed = 1, total = 3\<rparr>"
    by code_simp
  have us: "map totalXp (calculateXpProgress hostUS (Arr sampleTransactions)) = [1000000, 3000000]"
    by code_simp
  note t = transforms_depend_on_input_and_host
    [where h = hostUS and h' = hostGB and v = "VArray 0" and s = sampleStore
      and rs = sampleResults and ts = sampleTransactions]
  from t p q have
    "take 2 (snd (calculateXpProgress_store hostUS (VArray 0) sampleStore)) = sampleStore"
    "take 2 (snd (calculateXpByProject_store (VArray 0) sampleStore)) = sampleStore"
    "take 1 (snd (calculatePassFailCounts_store (VArray 0) sampleResults)) = sampleResults"
    "fst (calculateXpProgress_store hostUS (VArray 0) sampleStore) =
       calculateXpProgress hostUS (Arr sampleTransactions)"
    "fst (calculateXpByProject_store (VArray 0) sampleStore) =
       [(''P2'', Num 2000000), (''P1'', Num 1000000)]"
    "fst (calculatePassFailCounts_store (VArray 0) sampleResults) =
       \<lparr>passed = 1, failed = 1, total = 3\<rparr>"
    "calculateXpProgress hostUS (Arr sampleTransactions) =
       cumulativeXpSeries hostUS sampleTransactions"
    "map totalXp (calculateXpProgress hostGB (Arr sampleTransactions)) = [1000000, 3000000]"
    "map totalXpMB (calculateXpProgress hostGB (Arr sampleTransactions)) =
       map totalXpMB (calculateXpProgress hostUS (Arr sampleTransactions))"
    by (simp_all only: arg args len byProject counted us simp_thms)
  with parsed q arg show ?thesis by (intro conjI)
qed

end
